theory Spec2Isabelle
  imports Main "HOL-Library.AList" "HOL-Library.Multiset"
begin

section \<open>Data model (shared/schema.ts)\<close>

text \<open>
  A \<open>Date\<close> is its \<open>getTime()\<close> value: milliseconds since the epoch, an integer.
  Numeric columns are \<open>integer\<close> columns and are modelled as \<open>int\<close>; a nullable
  column is an \<open>option\<close> (\<open>None\<close> is \<open>null\<close>).
\<close>

type_synonym timestamp = int

text \<open>
  A property of a JavaScript object that an object literal may leave out: reading
  it gives \<open>undefined\<close>, which is neither \<open>null\<close> nor a value of the column type.
\<close>

datatype 'a jsprop = Undefined | Defined 'a

record User =
  user_id :: int
  username :: string
  password :: string

record Task =
  task_id :: int
  task_text :: string
  task_completed :: bool
  task_dueDate :: "timestamp option"
  task_createdAt :: timestamp

text \<open>
  \<open>Partial<InsertTask>\<close>: every property is optional; \<open>None\<close> is a property that
  the caller did not supply, \<open>Some v\<close> one supplied with value \<open>v\<close>.
\<close>

record PartialInsertTask =
  taskU_text :: "string option"
  taskU_completed :: "bool option"
  taskU_dueDate :: "timestamp option option"

record TimerSettings =
  ts_id :: int
  ts_userId :: "int option"
  defaultMinutes :: int
  defaultSeconds :: int
  alarmSound :: string
  volume :: int
  autoStartBreak :: bool
  timerMode :: string
  pomodoroMinutes :: int
  shortBreakMinutes :: int
  longBreakMinutes :: int
  longBreakInterval :: int
  autoStartPomodoro :: bool
  trackStopwatchTime :: bool
  stopwatchDefaultCategory :: "string option"
  stopwatchAutoSave :: bool
  backgroundImage :: "string option jsprop"
  useCustomBackground :: "bool jsprop"

record PartialInsertTimerSettings =
  tsU_userId :: "int option option"
  tsU_defaultMinutes :: "int option"
  tsU_defaultSeconds :: "int option"
  tsU_alarmSound :: "string option"
  tsU_volume :: "int option"
  tsU_autoStartBreak :: "bool option"
  tsU_timerMode :: "string option"
  tsU_pomodoroMinutes :: "int option"
  tsU_shortBreakMinutes :: "int option"
  tsU_longBreakMinutes :: "int option"
  tsU_longBreakInterval :: "int option"
  tsU_autoStartPomodoro :: "bool option"
  tsU_trackStopwatchTime :: "bool option"
  tsU_stopwatchDefaultCategory :: "string option option"
  tsU_stopwatchAutoSave :: "bool option"
  tsU_backgroundImage :: "string option option"
  tsU_useCustomBackground :: "bool option"

record StudySession =
  sess_id :: int
  sess_userId :: "int option"
  startTime :: timestamp
  endTime :: "timestamp option"
  duration :: "int option"
  timerType :: string
  tags :: "string list option"
  sess_notes :: "string option"
  sess_completed :: bool

record PartialInsertStudySession =
  sessU_userId :: "int option option"
  sessU_startTime :: "timestamp option"
  sessU_endTime :: "timestamp option option"
  sessU_duration :: "int option option"
  sessU_timerType :: "string option"
  sessU_tags :: "string list option option"
  sessU_notes :: "string option option"
  sessU_completed :: "bool option"

text \<open>
  \<open>timeByCategory\<close> is a \<open>Record<string, number>\<close> in a nullable json column: a
  plain object whose own properties map category names to seconds, or \<open>null\<close>.
  The type says that every value is a number; at run time a value can also be
  a string, because \<open>+\<close> concatenates when one operand is not a number. \<open>Text\<close>
  is such a string: it is never empty, and its characters are not part of the
  model. The order of the keys is not part of the model either.
\<close>

datatype jsvalue = Num int | Text

record StudyStats =
  stats_id :: int
  stats_userId :: "int option"
  totalStudyTime :: int
  dailyGoal :: int
  weeklyGoal :: int
  streakDays :: int
  lastStudyDate :: "timestamp option"
  timeByCategory :: "(string \<rightharpoonup> jsvalue) option"

record PartialInsertStudyStats =
  statsU_userId :: "int option option"
  statsU_totalStudyTime :: "int option"
  statsU_dailyGoal :: "int option"
  statsU_weeklyGoal :: "int option"
  statsU_streakDays :: "int option"
  statsU_lastStudyDate :: "timestamp option option"
  statsU_timeByCategory :: "(string \<rightharpoonup> jsvalue) option option"

section \<open>JavaScript idioms used by storage.ts\<close>

text \<open>
  Object spread \<open>{...a, ...b}\<close>, one property at a time: a property supplied by
  \<open>b\<close> replaces the one of \<open>a\<close>, every other property of \<open>a\<close> is kept.
\<close>

fun spread :: "'a \<Rightarrow> 'a option \<Rightarrow> 'a" where
  "spread old None = old"
| "spread old (Some v) = v"

text \<open>\<open>if (category)\<close>: \<open>undefined\<close> and the empty string are falsy.\<close>

fun truthy :: "string option \<Rightarrow> bool" where
  "truthy None = False"
| "truthy (Some c) = (c \<noteq> [])"

text \<open>
  \<open>timeByCategory[category]\<close> reads an own property of the object or, when the
  object has none of that name, the property that it inherits from
  \<open>Object.prototype\<close>; \<open>objectPrototypeNames\<close> are the names \<open>Object.prototype\<close> has.
  The inherited values are functions, and for \<open>__proto__\<close> the prototype itself:
  objects, none of them a number. A name found nowhere reads \<open>undefined\<close>.
\<close>

definition objectPrototypeNames :: "string list" where
  "objectPrototypeNames =
     [''constructor'', ''__defineGetter__'', ''__defineSetter__'', ''hasOwnProperty'',
      ''__lookupGetter__'', ''__lookupSetter__'', ''isPrototypeOf'',
      ''propertyIsEnumerable'', ''toString'', ''valueOf'', ''__proto__'',
      ''toLocaleString'']"

datatype jsread = ReadUndefined | ReadOwn jsvalue | ReadInherited

definition readProperty :: "(string \<rightharpoonup> jsvalue) \<Rightarrow> string \<Rightarrow> jsread" where
  "readProperty obj name =
     (case obj name of
        Some v \<Rightarrow> ReadOwn v
      | None \<Rightarrow> if name \<in> set objectPrototypeNames then ReadInherited else ReadUndefined)"

text \<open>
  \<open>(x || 0) + seconds\<close>: \<open>undefined\<close> and the number 0 are falsy and give
  \<open>0 + seconds\<close>; another number is added to; a non-empty string and an object are
  truthy and are not numbers, so that \<open>+\<close> converts both operands to strings and
  concatenates them.
\<close>

fun orZeroPlus :: "jsread \<Rightarrow> int \<Rightarrow> jsvalue" where
  "orZeroPlus ReadUndefined seconds = Num (0 + seconds)"
| "orZeroPlus (ReadOwn (Num v)) seconds = Num ((if v = 0 then 0 else v) + seconds)"
| "orZeroPlus (ReadOwn Text) seconds = Text"
| "orZeroPlus ReadInherited seconds = Text"

text \<open>
  \<open>Number.isSafeInteger\<close>: the integers that a JavaScript number holds exactly,
  and between which \<open>+\<close> is the addition of integers while the sum is one of
  them.
\<close>

definition safeInteger :: "int \<Rightarrow> bool" where
  "safeInteger n = (- (2 ^ 53 - 1) \<le> n \<and> n \<le> 2 ^ 53 - 1)"

text \<open>\<open>timeByCategory || {}\<close>: \<open>null\<close> is read as the empty object.\<close>

fun orEmpty :: "(string \<rightharpoonup> jsvalue) option \<Rightarrow> (string \<rightharpoonup> jsvalue)" where
  "orEmpty None = Map.empty"
| "orEmpty (Some m) = m"

subsection \<open>Calendar days\<close>

text \<open>
  \<open>d.setHours(0, 0, 0, 0)\<close> moves a date to the midnight that starts its day in the
  time zone of the process. The zone is a parameter: \<open>tz\<close> is its offset from UTC
  in milliseconds, taken as fixed (no daylight-saving change), so that a day has
  \<open>msPerDay\<close> milliseconds and \<open>setDate(getDate() - 1)\<close> at a midnight is the
  midnight one day earlier.
\<close>

definition msPerDay :: int where
  "msPerDay = 86400000"

definition startOfDay :: "int \<Rightarrow> timestamp \<Rightarrow> timestamp" where
  "startOfDay tz t = ((t + tz) div msPerDay) * msPerDay - tz"

definition previousDay :: "timestamp \<Rightarrow> timestamp" where
  "previousDay d = d - msPerDay"

section \<open>MemStorage (storage.ts)\<close>

text \<open>
  A JavaScript \<open>Map\<close> keeps its entries in insertion order: it is an association
  list with distinct keys; \<open>get\<close> is \<open>map_of\<close>, \<open>set\<close> is \<open>AList.update\<close> (which
  replaces in place or appends), \<open>delete\<close> is \<open>AList.delete\<close>, \<open>values()\<close> is
  \<open>map snd\<close>.
\<close>

record MemStorage =
  users :: "(int \<times> User) list"
  tasksMap :: "(int \<times> Task) list"
  timerSettingsInstance :: "TimerSettings option"
  studySessionsMap :: "(int \<times> StudySession) list"
  studyStatsInstance :: "StudyStats option"
  mem_userId :: int
  taskId :: int
  sessionId :: int

datatype error = FailedToInitializeStudyStats

definition defaultTimerSettings :: TimerSettings where
  "defaultTimerSettings =
     \<lparr> ts_id = 1, ts_userId = None, defaultMinutes = 25, defaultSeconds = 0,
       alarmSound = ''bell'', volume = 80, autoStartBreak = False,
       timerMode = ''pomodoro'', pomodoroMinutes = 25, shortBreakMinutes = 5,
       longBreakMinutes = 15, longBreakInterval = 4, autoStartPomodoro = False,
       trackStopwatchTime = True, stopwatchDefaultCategory = Some ''General'',
       stopwatchAutoSave = False,
       backgroundImage = Undefined, useCustomBackground = Undefined \<rparr>"

definition defaultStats :: StudyStats where
  "defaultStats =
     \<lparr> stats_id = 1, stats_userId = None, totalStudyTime = 0, dailyGoal = 7200,
       weeklyGoal = 36000, streakDays = 0, lastStudyDate = None,
       timeByCategory = Some Map.empty \<rparr>"

text \<open>The constructor: both singletons are created eagerly.\<close>

definition MemStorage_new :: MemStorage where
  "MemStorage_new =
     \<lparr> users = [], tasksMap = [], timerSettingsInstance = Some defaultTimerSettings,
       studySessionsMap = [], studyStatsInstance = Some defaultStats,
       mem_userId = 1, taskId = 1, sessionId = 1 \<rparr>"

subsection \<open>Study stats\<close>

definition noStatsUpdate :: PartialInsertStudyStats where
  "noStatsUpdate =
     \<lparr> statsU_userId = None, statsU_totalStudyTime = None, statsU_dailyGoal = None,
       statsU_weeklyGoal = None, statsU_streakDays = None,
       statsU_lastStudyDate = None, statsU_timeByCategory = None \<rparr>"

definition mergeStudyStats :: "StudyStats \<Rightarrow> PartialInsertStudyStats \<Rightarrow> StudyStats" where
  "mergeStudyStats a b =
     \<lparr> stats_id = stats_id a,
       stats_userId = spread (stats_userId a) (statsU_userId b),
       totalStudyTime = spread (totalStudyTime a) (statsU_totalStudyTime b),
       dailyGoal = spread (dailyGoal a) (statsU_dailyGoal b),
       weeklyGoal = spread (weeklyGoal a) (statsU_weeklyGoal b),
       streakDays = spread (streakDays a) (statsU_streakDays b),
       lastStudyDate = spread (lastStudyDate a) (statsU_lastStudyDate b),
       timeByCategory = spread (timeByCategory a) (statsU_timeByCategory b) \<rparr>"

definition mem_getStudyStats :: "MemStorage \<Rightarrow> StudyStats option" where
  "mem_getStudyStats s = studyStatsInstance s"

definition mem_updateStudyStats ::
  "PartialInsertStudyStats \<Rightarrow> MemStorage \<Rightarrow> StudyStats \<times> MemStorage" where
  "mem_updateStudyStats stats s =
     (let inst = (case studyStatsInstance s of
                    None \<Rightarrow> mergeStudyStats defaultStats stats
                  | Some cur \<Rightarrow> mergeStudyStats cur stats)
      in (inst, s\<lparr>studyStatsInstance := Some inst\<rparr>))"

text \<open>
  The streak rule shared by both storages, for a record whose \<open>lastStudyDate\<close> is
  set: \<open>today\<close> is the start of the current day, \<open>yesterday\<close> the day before.
\<close>

definition streakAfter :: "int \<Rightarrow> timestamp \<Rightarrow> timestamp \<Rightarrow> int \<Rightarrow> int" where
  "streakAfter tz now lastStudy streak =
     (let today = startOfDay tz now;
          yesterday = previousDay today;
          lastStudyDay = startOfDay tz lastStudy
      in if lastStudyDay = yesterday then streak + 1
         else if lastStudyDay < yesterday then 1
         else streak)"

definition addCategoryTime ::
  "(string \<rightharpoonup> jsvalue) option \<Rightarrow> string option \<Rightarrow> int \<Rightarrow> (string \<rightharpoonup> jsvalue)" where
  "addCategoryTime stored category seconds =
     (let timeByCategory = orEmpty stored
      in if truthy category
         then timeByCategory(the category \<mapsto>
                orZeroPlus (readProperty timeByCategory (the category)) seconds)
         else timeByCategory)"

definition mem_increaseStudyTime ::
  "int \<Rightarrow> timestamp \<Rightarrow> int \<Rightarrow> string option \<Rightarrow> MemStorage \<Rightarrow> error + (StudyStats \<times> MemStorage)" where
  "mem_increaseStudyTime tz now seconds category s =
     (let s1 = (if studyStatsInstance s = None
                then snd (mem_updateStudyStats noStatsUpdate s) else s)
      in case studyStatsInstance s1 of
           None \<Rightarrow> Inl FailedToInitializeStudyStats
         | Some inst \<Rightarrow>
             let streak = (case lastStudyDate inst of
                             Some lastStudy \<Rightarrow> streakAfter tz now lastStudy (streakDays inst)
                           | None \<Rightarrow> 1);
                 byCategory = addCategoryTime (timeByCategory inst) category seconds;
                 total = totalStudyTime inst + seconds;
                 inst' = inst\<lparr> totalStudyTime := total, lastStudyDate := Some now,
                              streakDays := streak, timeByCategory := Some byCategory \<rparr>
             in Inr (inst', s1\<lparr>studyStatsInstance := Some inst'\<rparr>))"

text \<open>
  A call of \<open>increaseStudyTime\<close> is the clock reading of \<open>new Date()\<close> during the
  call, the seconds and the optional category (\<open>None\<close> is \<open>undefined\<close>). The call
  reads the clock twice, for \<open>today\<close> and for the new \<open>lastStudyDate\<close>; the model
  takes both readings as the one \<open>now\<close>. \<open>mem_run\<close> makes the calls in turn; an
  exception ends the run.
\<close>

type_synonym call = "timestamp \<times> int \<times> string option"

fun mem_run :: "int \<Rightarrow> call list \<Rightarrow> MemStorage \<Rightarrow> error + MemStorage" where
  "mem_run tz [] s = Inr s"
| "mem_run tz ((now, seconds, category) # cs) s =
     (case mem_increaseStudyTime tz now seconds category s of
        Inl e \<Rightarrow> Inl e
      | Inr (r, s') \<Rightarrow> mem_run tz cs s')"

definition mem_statsAfter :: "int \<Rightarrow> call list \<Rightarrow> MemStorage \<Rightarrow> StudyStats option" where
  "mem_statsAfter tz cs s =
     (case mem_run tz cs s of Inl e \<Rightarrow> None | Inr s' \<Rightarrow> mem_getStudyStats s')"

definition storedLastStudyDate :: "StudyStats option \<Rightarrow> timestamp option" where
  "storedLastStudyDate inst = (case inst of None \<Rightarrow> None | Some r \<Rightarrow> lastStudyDate r)"

subsection \<open>Timer settings\<close>

text \<open>
  The constructor and \<open>updateTimerSettings\<close> write the same object literal; it is
  \<open>defaultTimerSettings\<close>. Neither literal has a \<open>backgroundImage\<close> or a
  \<open>useCustomBackground\<close> property.
\<close>

fun spreadProp :: "'a jsprop \<Rightarrow> 'a option \<Rightarrow> 'a jsprop" where
  "spreadProp old None = old"
| "spreadProp old (Some v) = Defined v"

definition mergeTimerSettings ::
  "TimerSettings \<Rightarrow> PartialInsertTimerSettings \<Rightarrow> TimerSettings" where
  "mergeTimerSettings a b =
     \<lparr> ts_id = ts_id a,
       ts_userId = spread (ts_userId a) (tsU_userId b),
       defaultMinutes = spread (defaultMinutes a) (tsU_defaultMinutes b),
       defaultSeconds = spread (defaultSeconds a) (tsU_defaultSeconds b),
       alarmSound = spread (alarmSound a) (tsU_alarmSound b),
       volume = spread (volume a) (tsU_volume b),
       autoStartBreak = spread (autoStartBreak a) (tsU_autoStartBreak b),
       timerMode = spread (timerMode a) (tsU_timerMode b),
       pomodoroMinutes = spread (pomodoroMinutes a) (tsU_pomodoroMinutes b),
       shortBreakMinutes = spread (shortBreakMinutes a) (tsU_shortBreakMinutes b),
       longBreakMinutes = spread (longBreakMinutes a) (tsU_longBreakMinutes b),
       longBreakInterval = spread (longBreakInterval a) (tsU_longBreakInterval b),
       autoStartPomodoro = spread (autoStartPomodoro a) (tsU_autoStartPomodoro b),
       trackStopwatchTime = spread (trackStopwatchTime a) (tsU_trackStopwatchTime b),
       stopwatchDefaultCategory =
         spread (stopwatchDefaultCategory a) (tsU_stopwatchDefaultCategory b),
       stopwatchAutoSave = spread (stopwatchAutoSave a) (tsU_stopwatchAutoSave b),
       backgroundImage = spreadProp (backgroundImage a) (tsU_backgroundImage b),
       useCustomBackground =
         spreadProp (useCustomBackground a) (tsU_useCustomBackground b) \<rparr>"

definition mem_getTimerSettings :: "MemStorage \<Rightarrow> TimerSettings option" where
  "mem_getTimerSettings s = timerSettingsInstance s"

definition mem_updateTimerSettings ::
  "PartialInsertTimerSettings \<Rightarrow> MemStorage \<Rightarrow> TimerSettings \<times> MemStorage" where
  "mem_updateTimerSettings settings s =
     (let inst = (case timerSettingsInstance s of
                    None \<Rightarrow> mergeTimerSettings defaultTimerSettings settings
                  | Some cur \<Rightarrow> mergeTimerSettings cur settings)
      in (inst, s\<lparr>timerSettingsInstance := Some inst\<rparr>))"

text \<open>The writes that reach the two singletons, and a run of them.\<close>

datatype singletonWrite =
    UpdateTimerSettings PartialInsertTimerSettings
  | UpdateStudyStats PartialInsertStudyStats
  | IncreaseStudyTime timestamp int "string option"

fun mem_write :: "int \<Rightarrow> singletonWrite \<Rightarrow> MemStorage \<Rightarrow> MemStorage" where
  "mem_write tz (UpdateTimerSettings settings) s = snd (mem_updateTimerSettings settings s)"
| "mem_write tz (UpdateStudyStats stats) s = snd (mem_updateStudyStats stats s)"
| "mem_write tz (IncreaseStudyTime now seconds category) s =
     (case mem_increaseStudyTime tz now seconds category s of
        Inl e \<Rightarrow> s
      | Inr (r, s') \<Rightarrow> s')"

fun mem_writes :: "int \<Rightarrow> singletonWrite list \<Rightarrow> MemStorage \<Rightarrow> MemStorage" where
  "mem_writes tz [] s = s"
| "mem_writes tz (w # ws) s = mem_writes tz ws (mem_write tz w s)"

subsection \<open>Tasks\<close>

definition mergeTask :: "Task \<Rightarrow> PartialInsertTask \<Rightarrow> Task" where
  "mergeTask task updateData =
     \<lparr> task_id = task_id task,
       task_text = spread (task_text task) (taskU_text updateData),
       task_completed = spread (task_completed task) (taskU_completed updateData),
       task_dueDate = spread (task_dueDate task) (taskU_dueDate updateData),
       task_createdAt = task_createdAt task \<rparr>"

definition mem_getTask :: "int \<Rightarrow> MemStorage \<Rightarrow> Task option" where
  "mem_getTask i s = map_of (tasksMap s) i"

definition mem_updateTask ::
  "int \<Rightarrow> PartialInsertTask \<Rightarrow> MemStorage \<Rightarrow> Task option \<times> MemStorage" where
  "mem_updateTask i updateData s =
     (case map_of (tasksMap s) i of
        None \<Rightarrow> (None, s)
      | Some task \<Rightarrow>
          let updatedTask = mergeTask task updateData
          in (Some updatedTask, s\<lparr>tasksMap := AList.update i updatedTask (tasksMap s)\<rparr>))"

subsection \<open>Study sessions\<close>

definition mergeStudySession ::
  "StudySession \<Rightarrow> PartialInsertStudySession \<Rightarrow> StudySession" where
  "mergeStudySession session sessionData =
     \<lparr> sess_id = sess_id session,
       sess_userId = spread (sess_userId session) (sessU_userId sessionData),
       startTime = spread (startTime session) (sessU_startTime sessionData),
       endTime = spread (endTime session) (sessU_endTime sessionData),
       duration = spread (duration session) (sessU_duration sessionData),
       timerType = spread (timerType session) (sessU_timerType sessionData),
       tags = spread (tags session) (sessU_tags sessionData),
       sess_notes = spread (sess_notes session) (sessU_notes sessionData),
       sess_completed = spread (sess_completed session) (sessU_completed sessionData) \<rparr>"

definition mem_getStudySession :: "int \<Rightarrow> MemStorage \<Rightarrow> StudySession option" where
  "mem_getStudySession i s = map_of (studySessionsMap s) i"

text \<open>
  \<open>createStudySession\<close>: the id comes from the counter; \<open>??\<close> replaces \<open>undefined\<close>
  and \<open>null\<close>, \<open>||\<close> replaces every falsy value (\<open>undefined\<close>, \<open>null\<close>, 0, the empty
  string, \<open>false\<close>). The insert object is given at the partial type; the schema
  requires \<open>timerType\<close>.
\<close>

definition mem_createStudySession ::
  "timestamp \<Rightarrow> PartialInsertStudySession \<Rightarrow> MemStorage \<Rightarrow> StudySession \<times> MemStorage" where
  "mem_createStudySession now session s =
     (let i = sessionId s;
          studySession =
            \<lparr> sess_id = i,
              sess_userId = (case sessU_userId session of Some (Some u) \<Rightarrow> Some u | _ \<Rightarrow> None),
              startTime = (case sessU_startTime session of Some t \<Rightarrow> t | None \<Rightarrow> now),
              endTime = (case sessU_endTime session of Some (Some t) \<Rightarrow> Some t | _ \<Rightarrow> None),
              duration = Some (case sessU_duration session of Some (Some d) \<Rightarrow> d | _ \<Rightarrow> 0),
              timerType = (case sessU_timerType session of
                             Some t \<Rightarrow> if t = [] then ''pomodoro'' else t
                           | None \<Rightarrow> ''pomodoro''),
              tags = Some (case sessU_tags session of Some (Some ts) \<Rightarrow> ts | _ \<Rightarrow> []),
              sess_notes = (case sessU_notes session of Some (Some n) \<Rightarrow> Some n | _ \<Rightarrow> None),
              sess_completed = (case sessU_completed session of Some b \<Rightarrow> b | None \<Rightarrow> False) \<rparr>
      in (studySession,
          s\<lparr> studySessionsMap := AList.update i studySession (studySessionsMap s),
              sessionId := i + 1 \<rparr>))"

definition mem_updateStudySession ::
  "int \<Rightarrow> PartialInsertStudySession \<Rightarrow> MemStorage \<Rightarrow> StudySession option \<times> MemStorage" where
  "mem_updateStudySession i sessionData s =
     (case map_of (studySessionsMap s) i of
        None \<Rightarrow> (None, s)
      | Some session \<Rightarrow>
          let updatedSession = mergeStudySession session sessionData
          in (Some updatedSession,
              s\<lparr>studySessionsMap := AList.update i updatedSession (studySessionsMap s)\<rparr>))"

text \<open>
  \<open>Array.prototype.sort\<close> is stable; with the comparator
  \<open>b.startTime - a.startTime\<close> it sorts by descending \<open>startTime\<close>, which is the
  stable insertion sort \<open>sort_key\<close> on the negated time.
\<close>

definition mem_getStudySessionsByDateRange ::
  "timestamp \<Rightarrow> timestamp \<Rightarrow> MemStorage \<Rightarrow> StudySession list" where
  "mem_getStudySessionsByDateRange startDate endDate s =
     (let sessions = map snd (studySessionsMap s)
      in sort_key (\<lambda>session. - startTime session)
           (filter (\<lambda>session. startTime session \<ge> startDate \<and> startTime session \<le> endDate)
              sessions))"

section \<open>The request handler PUT /api/study-sessions/:id (routes.ts)\<close>

datatype response =
    Status400 string
  | Status404 string
  | Status500 string
  | Status200 StudySession

text \<open>\<open>tags && tags.length > 0 ? tags[0] : undefined\<close>\<close>

fun firstTag :: "string list option \<Rightarrow> string option" where
  "firstTag None = None"
| "firstTag (Some []) = None"
| "firstTag (Some (t # ts)) = Some t"

text \<open>
  The guard \<open>completed && duration && duration > 0\<close> on the session as stored after
  the update, and the arguments of the call it guards. A \<open>null\<close> duration and the
  duration 0 are falsy.
\<close>

definition creditCall :: "StudySession \<Rightarrow> (int \<times> string option) option" where
  "creditCall updatedSession =
     (case duration updatedSession of
        None \<Rightarrow> None
      | Some d \<Rightarrow>
          if sess_completed updatedSession \<and> d \<noteq> 0 \<and> d > 0
          then Some (d, firstTag (tags updatedSession))
          else None)"

text \<open>
  The handler returns its response, the calls of \<open>increaseStudyTime\<close> it made, and
  the storage afterwards. \<open>idParam\<close> is \<open>parseInt(req.params.id)\<close> with \<open>None\<close> for
  \<open>NaN\<close>; \<open>body\<close> is the outcome of the schema's \<open>parse\<close>, \<open>Inl\<close> the message of a
  \<open>ZodError\<close>.
\<close>

definition put_study_session ::
  "int \<Rightarrow> timestamp \<Rightarrow> int option \<Rightarrow> string + PartialInsertStudySession \<Rightarrow> MemStorage
     \<Rightarrow> response \<times> (int \<times> string option) list \<times> MemStorage" where
  "put_study_session tz now idParam body s =
     (case idParam of
        None \<Rightarrow> (Status400 ''Invalid session ID'', [], s)
      | Some i \<Rightarrow>
          (case body of
             Inl message \<Rightarrow> (Status400 message, [], s)
           | Inr validatedData \<Rightarrow>
               (case mem_updateStudySession i validatedData s of
                  (None, s1) \<Rightarrow> (Status404 ''Study session not found'', [], s1)
                | (Some updatedSession, s1) \<Rightarrow>
                    (case creditCall updatedSession of
                       None \<Rightarrow> (Status200 updatedSession, [], s1)
                     | Some (d, c) \<Rightarrow>
                         (case mem_increaseStudyTime tz now d c s1 of
                            Inl e \<Rightarrow> (Status500 ''Failed to update study session'', [(d, c)], s1)
                          | Inr (r, s2) \<Rightarrow> (Status200 updatedSession, [(d, c)], s2))))))"

section \<open>DbStorage: the study_stats table (storage.ts)\<close>

text \<open>
  The table is the list of its rows and the next value of the \<open>serial\<close> column
  \<open>id\<close>. \<open>select ... where user_id is null limit 1\<close> has no \<open>order by\<close>; the model
  returns the first such row of the list.
\<close>

record DbStorage =
  studyStatsTable :: "StudyStats list"
  studyStatsSerial :: int

definition DbStorage_new :: DbStorage where
  "DbStorage_new = \<lparr> studyStatsTable = [], studyStatsSerial = 1 \<rparr>"

text \<open>\<open>result.length > 0 ? result[0] : undefined\<close>, and \<open>result[0]\<close> alone.\<close>

fun firstRow :: "'a list \<Rightarrow> 'a option" where
  "firstRow [] = None"
| "firstRow (r # rs) = Some r"

definition db_getStudyStats :: "DbStorage \<Rightarrow> StudyStats option" where
  "db_getStudyStats d = firstRow (filter (\<lambda>r. stats_userId r = None) (studyStatsTable d))"

text \<open>
  \<open>insert(...).values(v).returning()\<close>: an insert object has no \<open>id\<close>; the row gets
  the next value of the serial, whatever \<open>stats_id v\<close> is.
\<close>

definition db_insertStudyStats :: "StudyStats \<Rightarrow> DbStorage \<Rightarrow> StudyStats list \<times> DbStorage" where
  "db_insertStudyStats v d =
     (let row = v\<lparr>stats_id := studyStatsSerial d\<rparr>
      in ([row], \<lparr> studyStatsTable = studyStatsTable d @ [row],
                   studyStatsSerial = studyStatsSerial d + 1 \<rparr>))"

text \<open>\<open>update(...).set(f).where(eq(id, i)).returning()\<close>\<close>

definition db_updateStudyStatsById ::
  "int \<Rightarrow> (StudyStats \<Rightarrow> StudyStats) \<Rightarrow> DbStorage \<Rightarrow> StudyStats list \<times> DbStorage" where
  "db_updateStudyStatsById i f d =
     (map f (filter (\<lambda>r. stats_id r = i) (studyStatsTable d)),
      d\<lparr>studyStatsTable := map (\<lambda>r. if stats_id r = i then f r else r) (studyStatsTable d)\<rparr>)"

definition db_updateStudyStats ::
  "timestamp \<Rightarrow> PartialInsertStudyStats \<Rightarrow> DbStorage \<Rightarrow> StudyStats option \<times> DbStorage" where
  "db_updateStudyStats now stats d =
     (case db_getStudyStats d of
        None \<Rightarrow>
          (let newStats = mergeStudyStats (defaultStats\<lparr>lastStudyDate := Some now\<rparr>) stats;
               (result, d') = db_insertStudyStats newStats d
           in (firstRow result, d'))
      | Some existingStats \<Rightarrow>
          (let (result, d') =
                 db_updateStudyStatsById (stats_id existingStats)
                   (\<lambda>r. mergeStudyStats r stats) d
           in (firstRow result, d')))"

definition db_increaseStudyTime ::
  "int \<Rightarrow> timestamp \<Rightarrow> int \<Rightarrow> string option \<Rightarrow> DbStorage \<Rightarrow> StudyStats option \<times> DbStorage" where
  "db_increaseStudyTime tz now seconds category d =
     (case db_getStudyStats d of
        None \<Rightarrow>
          (let newStats =
                 \<lparr> stats_id = 0, stats_userId = None, totalStudyTime = seconds,
                   dailyGoal = 7200, weeklyGoal = 36000, streakDays = 1,
                   lastStudyDate = Some now,
                   timeByCategory =
                     Some (if truthy category then [the category \<mapsto> Num seconds] else Map.empty) \<rparr>;
               (result, d') = db_insertStudyStats newStats d
           in (firstRow result, d'))
      | Some currentStats \<Rightarrow>
          (let streak = (case lastStudyDate currentStats of
                           Some lastStudy \<Rightarrow>
                             streakAfter tz now lastStudy (streakDays currentStats)
                         | None \<Rightarrow> streakDays currentStats);
               byCategory = addCategoryTime (timeByCategory currentStats) category seconds;
               total = totalStudyTime currentStats + seconds;
               (result, d') =
                 db_updateStudyStatsById (stats_id currentStats)
                   (\<lambda>r. r\<lparr> totalStudyTime := total, lastStudyDate := Some now,
                            streakDays := streak, timeByCategory := Some byCategory \<rparr>) d
           in (firstRow result, d')))"

fun db_run :: "int \<Rightarrow> call list \<Rightarrow> DbStorage \<Rightarrow> DbStorage" where
  "db_run tz [] d = d"
| "db_run tz ((now, seconds, category) # cs) d =
     db_run tz cs (snd (db_increaseStudyTime tz now seconds category d))"

definition db_statsAfter :: "int \<Rightarrow> call list \<Rightarrow> DbStorage \<Rightarrow> StudyStats option" where
  "db_statsAfter tz cs d = db_getStudyStats (db_run tz cs d)"

text \<open>The streak that \<open>getStudyStats\<close> reports after the calls, on a new storage.\<close>

definition mem_streakAfter :: "int \<Rightarrow> call list \<Rightarrow> int option" where
  "mem_streakAfter tz cs = map_option streakDays (mem_statsAfter tz cs MemStorage_new)"

definition db_streakAfter :: "int \<Rightarrow> call list \<Rightarrow> int option" where
  "db_streakAfter tz cs = map_option streakDays (db_statsAfter tz cs DbStorage_new)"

section \<open>Request bodies used in the examples\<close>

text \<open>The empty object \<open>{}\<close> at each partial type: no property is supplied.\<close>

definition noTaskUpdate :: PartialInsertTask where
  "noTaskUpdate = \<lparr> taskU_text = None, taskU_completed = None, taskU_dueDate = None \<rparr>"

definition noSessionUpdate :: PartialInsertStudySession where
  "noSessionUpdate =
     \<lparr> sessU_userId = None, sessU_startTime = None, sessU_endTime = None,
       sessU_duration = None, sessU_timerType = None, sessU_tags = None,
       sessU_notes = None, sessU_completed = None \<rparr>"

definition noTimerSettingsUpdate :: PartialInsertTimerSettings where
  "noTimerSettingsUpdate =
     \<lparr> tsU_userId = None, tsU_defaultMinutes = None, tsU_defaultSeconds = None,
       tsU_alarmSound = None, tsU_volume = None, tsU_autoStartBreak = None,
       tsU_timerMode = None, tsU_pomodoroMinutes = None, tsU_shortBreakMinutes = None,
       tsU_longBreakMinutes = None, tsU_longBreakInterval = None,
       tsU_autoStartPomodoro = None, tsU_trackStopwatchTime = None,
       tsU_stopwatchDefaultCategory = None, tsU_stopwatchAutoSave = None,
       tsU_backgroundImage = None, tsU_useCustomBackground = None \<rparr>"

text \<open>A write that supplies neither background property of the timer settings.\<close>

fun leavesBackground :: "singletonWrite \<Rightarrow> bool" where
  "leavesBackground (UpdateTimerSettings settings) =
     (tsU_backgroundImage settings = None \<and> tsU_useCustomBackground settings = None)"
| "leavesBackground (UpdateStudyStats stats) = True"
| "leavesBackground (IncreaseStudyTime now seconds category) = True"

text \<open>
  The scenario of the specification: a pomodoro session of 1800 seconds tagged
  Math and Review, created on a new storage at time 0; the body that marks it
  completed, and a later body that only writes a note.
\<close>

definition exampleSession :: PartialInsertStudySession where
  "exampleSession =
     noSessionUpdate\<lparr> sessU_timerType := Some ''pomodoro'', sessU_duration := Some (Some 1800),
                       sessU_tags := Some (Some [''Math'', ''Review'']) \<rparr>"

definition exampleStorage :: MemStorage where
  "exampleStorage = snd (mem_createStudySession 0 exampleSession MemStorage_new)"

definition completeIt :: PartialInsertStudySession where
  "completeIt = noSessionUpdate\<lparr>sessU_completed := Some True\<rparr>"

definition annotateIt :: PartialInsertStudySession where
  "annotateIt = noSessionUpdate\<lparr>sessU_notes := Some (Some ''reviewed'')\<rparr>"

section \<open>Properties of the study statistics\<close>

lemma mem_increase_result:
  "mem_increaseStudyTime tz now seconds category s =
     (let inst = (case studyStatsInstance s of None \<Rightarrow> defaultStats | Some r \<Rightarrow> r);
          inst' = inst\<lparr> totalStudyTime := totalStudyTime inst + seconds,
                        lastStudyDate := Some now,
                        streakDays := (case lastStudyDate inst of
                             Some lastStudy \<Rightarrow> streakAfter tz now lastStudy (streakDays inst)
                           | None \<Rightarrow> 1),
                        timeByCategory :=
                          Some (addCategoryTime (timeByCategory inst) category seconds) \<rparr>
      in Inr (inst', s\<lparr>studyStatsInstance := Some inst'\<rparr>))"
  by (simp add: mem_increaseStudyTime_def mem_updateStudyStats_def Let_def mergeStudyStats_def
       noStatsUpdate_def defaultStats_def split: option.splits)

lemma mem_increase_returns:
  "\<exists>r s'. mem_increaseStudyTime tz now seconds category s = Inr (r, s') \<and> studyStatsInstance s' = Some r"
  by (simp add: mem_increaseStudyTime_def mem_updateStudyStats_def Let_def split: option.splits)

lemma mem_increase_fields:
  assumes "mem_increaseStudyTime tz now seconds category s = Inr (r, s')"
  shows "streakDays r =
     (case storedLastStudyDate (studyStatsInstance s) of
        None \<Rightarrow> 1
      | Some lastStudy \<Rightarrow> streakAfter tz now lastStudy (streakDays (the (studyStatsInstance s))))"
    and "lastStudyDate r = Some now"
    and "totalStudyTime r = (case studyStatsInstance s of None \<Rightarrow> 0 | Some i \<Rightarrow> totalStudyTime i) + seconds"
    and "studyStatsInstance s' = Some r"
  using assms
  by (auto simp add: mem_increaseStudyTime_def mem_updateStudyStats_def Let_def storedLastStudyDate_def
      mergeStudyStats_def noStatsUpdate_def defaultStats_def split: option.splits if_splits)

lemma streakAfter_cases:
  "startOfDay tz l = previousDay (startOfDay tz now) \<Longrightarrow> streakAfter tz now l k = k + 1"
  "startOfDay tz l < previousDay (startOfDay tz now) \<Longrightarrow> streakAfter tz now l k = 1"
  "startOfDay tz l = startOfDay tz now \<Longrightarrow> streakAfter tz now l k = k"
  by (simp_all add: streakAfter_def Let_def previousDay_def msPerDay_def)

text \<open>
  C1. A call of \<open>increaseStudyTime\<close> with positive seconds returns a record, and
  its \<open>streakDays\<close> is 1 when no \<open>lastStudyDate\<close> is stored, the stored streak
  plus 1 when the stored date falls on yesterday, 1 when it falls before
  yesterday, and the stored streak when it falls on today. From a new storage, a
  call on day D gives streak 1, a second call that day leaves 1 and doubles
  \<open>totalStudyTime\<close>, a call on day D+1 gives 2, and a call on day D+3 gives 1.
\<close>

theorem C1_streak_rule:
  "0 < seconds \<Longrightarrow>
   (\<exists>r s'. mem_increaseStudyTime tz now seconds category s = Inr (r, s') \<and>
      mem_getStudyStats s' = Some r \<and>
      (case storedLastStudyDate (mem_getStudyStats s) of
         None \<Rightarrow> streakDays r = 1
       | Some lastStudy \<Rightarrow>
           (startOfDay tz lastStudy = previousDay (startOfDay tz now)
              \<longrightarrow> streakDays r = streakDays (the (mem_getStudyStats s)) + 1) \<and>
           (startOfDay tz lastStudy < previousDay (startOfDay tz now)
              \<longrightarrow> streakDays r = 1) \<and>
           (startOfDay tz lastStudy = startOfDay tz now
              \<longrightarrow> streakDays r = streakDays (the (mem_getStudyStats s)))))
   \<and> (startOfDay tz t2 = startOfDay tz t1 \<and>
        startOfDay tz t3 = startOfDay tz t1 + msPerDay \<and>
        startOfDay tz t4 = startOfDay tz t1 + 3 * msPerDay \<longrightarrow>
        map_option streakDays (mem_statsAfter tz [(t1, seconds, c1)] MemStorage_new) = Some 1 \<and>
        map_option streakDays
          (mem_statsAfter tz [(t1, seconds, c1), (t2, seconds, c2)] MemStorage_new) = Some 1 \<and>
        map_option totalStudyTime
          (mem_statsAfter tz [(t1, seconds, c1), (t2, seconds, c2)] MemStorage_new)
          = Some (2 * seconds) \<and>
        map_option streakDays
          (mem_statsAfter tz [(t1, seconds, c1), (t2, seconds, c2), (t3, seconds, c3)]
             MemStorage_new) = Some 2 \<and>
        map_option streakDays
          (mem_statsAfter tz
             [(t1, seconds, c1), (t2, seconds, c2), (t3, seconds, c3), (t4, seconds, c4)]
             MemStorage_new) = Some 1)"
proof (intro conjI impI)
  obtain r s' where rs: "mem_increaseStudyTime tz now seconds category s = Inr (r, s')"
    "studyStatsInstance s' = Some r"
    using mem_increase_returns by blast
  show "\<exists>r s'. mem_increaseStudyTime tz now seconds category s = Inr (r, s') \<and>
      mem_getStudyStats s' = Some r \<and>
      (case storedLastStudyDate (mem_getStudyStats s) of
         None \<Rightarrow> streakDays r = 1
       | Some lastStudy \<Rightarrow>
           (startOfDay tz lastStudy = previousDay (startOfDay tz now)
              \<longrightarrow> streakDays r = streakDays (the (mem_getStudyStats s)) + 1) \<and>
           (startOfDay tz lastStudy < previousDay (startOfDay tz now)
              \<longrightarrow> streakDays r = 1) \<and>
           (startOfDay tz lastStudy = startOfDay tz now
              \<longrightarrow> streakDays r = streakDays (the (mem_getStudyStats s))))"
    using rs mem_increase_fields(1)[OF rs(1)]
    by (auto simp add: mem_getStudyStats_def streakAfter_cases split: option.splits)
next
  assume days: "startOfDay tz t2 = startOfDay tz t1 \<and>
        startOfDay tz t3 = startOfDay tz t1 + msPerDay \<and>
        startOfDay tz t4 = startOfDay tz t1 + 3 * msPerDay"
  have a2: "\<And>k. streakAfter tz t2 t1 k = k"
    using days by (simp add: streakAfter_cases)
  have a3: "\<And>k. streakAfter tz t3 t2 k = k + 1"
    using days by (simp add: streakAfter_cases previousDay_def)
  have a4: "\<And>k. streakAfter tz t4 t3 k = 1"
    using days by (simp add: streakAfter_cases previousDay_def msPerDay_def)
  note run = mem_statsAfter_def mem_getStudyStats_def mem_increaseStudyTime_def
    MemStorage_new_def defaultStats_def Let_def
  show "map_option streakDays (mem_statsAfter tz [(t1, seconds, c1)] MemStorage_new) = Some 1"
    by (simp add: run)
  show "map_option streakDays
          (mem_statsAfter tz [(t1, seconds, c1), (t2, seconds, c2)] MemStorage_new) = Some 1"
    by (simp add: run a2)
  show "map_option totalStudyTime
          (mem_statsAfter tz [(t1, seconds, c1), (t2, seconds, c2)] MemStorage_new)
          = Some (2 * seconds)"
    by (simp add: run)
  show "map_option streakDays
          (mem_statsAfter tz [(t1, seconds, c1), (t2, seconds, c2), (t3, seconds, c3)]
             MemStorage_new) = Some 2"
    by (simp add: run a2 a3)
  show "map_option streakDays
          (mem_statsAfter tz
             [(t1, seconds, c1), (t2, seconds, c2), (t3, seconds, c3), (t4, seconds, c4)]
             MemStorage_new) = Some 1"
    by (simp add: run a2 a3 a4)
qed

theorem C1_streak_rule_witness:
  "(0::int) < 100 \<and>
   mem_increaseStudyTime 0 172800000 100 None
     (MemStorage_new\<lparr>studyStatsInstance :=
        Some (defaultStats\<lparr>streakDays := 4, lastStudyDate := Some 86400001\<rparr>)\<rparr>) \<noteq> Inl FailedToInitializeStudyStats \<and>
   startOfDay 0 86400001 = previousDay (startOfDay 0 172800000) \<and>
   map_option streakDays
     (mem_statsAfter 0 [(172800000, 100, None)]
        (MemStorage_new\<lparr>studyStatsInstance :=
           Some (defaultStats\<lparr>streakDays := 4, lastStudyDate := Some 86400001\<rparr>)\<rparr>)) = Some 5 \<and>
   startOfDay 0 50 = startOfDay 0 7 \<and>
   startOfDay 0 86400000 = startOfDay 0 7 + msPerDay \<and>
   startOfDay 0 259200123 = startOfDay 0 7 + 3 * msPerDay \<and>
   map_option streakDays
     (mem_statsAfter 0 [(7, 100, None), (50, 100, None), (86400000, 100, None), (259200123, 100, None)]
        MemStorage_new) = Some 1"
  using C1_streak_rule [of 100 0 172800000 None
      "MemStorage_new\<lparr>studyStatsInstance :=
        Some (defaultStats\<lparr>streakDays := 4, lastStudyDate := Some 86400001\<rparr>)\<rparr>"
      50 7 86400000 259200123 None None None None]
  by (simp add: startOfDay_def msPerDay_def previousDay_def mem_statsAfter_def mem_getStudyStats_def storedLastStudyDate_def MemStorage_new_def defaultStats_def split: sum.splits)

lemma streakAfter_ge1: "1 \<le> k \<Longrightarrow> 1 \<le> streakAfter tz now l k"
  by (simp add: streakAfter_def Let_def)

lemma streakAfter_gap:
  "startOfDay tz l + 2 * msPerDay \<le> startOfDay tz now \<Longrightarrow> streakAfter tz now l k = 1"
  by (simp add: streakAfter_def Let_def previousDay_def msPerDay_def)

lemma mem_run_append:
  "mem_run tz (cs @ ds) s =
     (case mem_run tz cs s of Inl e \<Rightarrow> Inl e | Inr s' \<Rightarrow> mem_run tz ds s')"
  by (induction cs arbitrary: s) (auto simp add: mem_increase_result Let_def)

lemma db_run_append: "db_run tz (cs @ ds) d = db_run tz ds (db_run tz cs d)"
  by (induction cs arbitrary: d) auto

lemma mem_run_shape:
  "cs \<noteq> [] \<Longrightarrow>
   \<forall>r. studyStatsInstance s = Some r \<and> lastStudyDate r \<noteq> None \<longrightarrow> 1 \<le> streakDays r \<Longrightarrow>
   \<exists>s' r. mem_run tz cs s = Inr s' \<and> studyStatsInstance s' = Some r \<and>
      lastStudyDate r = Some (fst (last cs)) \<and> 1 \<le> streakDays r"
proof (induction cs arbitrary: s rule: rev_induct)
  case Nil
  then show ?case by simp
next
  case (snoc c cs)
  obtain now seconds category where c: "c = (now, seconds, category)"
    by (cases c) auto
  show ?case
  proof (cases "cs = []")
    case True
    with snoc.prems c show ?thesis
      by (auto simp add: mem_increase_result Let_def defaultStats_def streakAfter_ge1
          split: option.splits)
  next
    case False
    from snoc.IH[OF False snoc.prems(2)] obtain s1 r1 where
      s1: "mem_run tz cs s = Inr s1" "studyStatsInstance s1 = Some r1"
        "lastStudyDate r1 = Some (fst (last cs))" "1 \<le> streakDays r1"
      by blast
    then show ?thesis
      by (simp add: mem_run_append c mem_increase_result Let_def streakAfter_ge1)
  qed
qed

lemma db_increase_new:
  "db_increaseStudyTime tz now seconds category DbStorage_new =
     (let row = \<lparr> stats_id = 1, stats_userId = None, totalStudyTime = seconds,
                   dailyGoal = 7200, weeklyGoal = 36000, streakDays = 1,
                   lastStudyDate = Some now,
                   timeByCategory =
                     Some (if truthy category then [the category \<mapsto> Num seconds] else Map.empty) \<rparr>
      in (Some row, \<lparr> studyStatsTable = [row], studyStatsSerial = 2 \<rparr>))"
  by (simp add: db_increaseStudyTime_def db_getStudyStats_def DbStorage_new_def
      db_insertStudyStats_def Let_def)

lemma db_increase_single:
  "studyStatsTable d = [r] \<Longrightarrow> stats_userId r = None \<Longrightarrow>
   db_increaseStudyTime tz now seconds category d =
     (let r' = r\<lparr> totalStudyTime := totalStudyTime r + seconds,
                  lastStudyDate := Some now,
                  streakDays := (case lastStudyDate r of
                       Some lastStudy \<Rightarrow> streakAfter tz now lastStudy (streakDays r)
                     | None \<Rightarrow> streakDays r),
                  timeByCategory := Some (addCategoryTime (timeByCategory r) category seconds) \<rparr>
      in (Some r', d\<lparr>studyStatsTable := [r']\<rparr>))"
  by (simp add: db_increaseStudyTime_def db_getStudyStats_def
      db_updateStudyStatsById_def Let_def)

lemma db_run_shape:
  "cs \<noteq> [] \<Longrightarrow>
   \<exists>r. studyStatsTable (db_run tz cs DbStorage_new) = [r] \<and> stats_userId r = None \<and>
      lastStudyDate r = Some (fst (last cs)) \<and> 1 \<le> streakDays r"
proof (induction cs rule: rev_induct)
  case Nil
  then show ?case by simp
next
  case (snoc c cs)
  obtain now seconds category where c: "c = (now, seconds, category)"
    by (cases c) auto
  show ?case
  proof (cases "cs = []")
    case True
    then show ?thesis
      by (simp add: c db_increase_new Let_def)
  next
    case False
    from snoc.IH[OF False] obtain r1 where
      r1: "studyStatsTable (db_run tz cs DbStorage_new) = [r1]" "stats_userId r1 = None"
        "lastStudyDate r1 = Some (fst (last cs))" "1 \<le> streakDays r1"
      by blast
    then show ?thesis
      by (simp add: db_run_append c db_increase_single[OF r1(1,2)] Let_def streakAfter_ge1)
  qed
qed


lemma MemStorage_new_inv:
  "\<forall>r. studyStatsInstance MemStorage_new = Some r \<and> lastStudyDate r \<noteq> None \<longrightarrow> 1 \<le> streakDays r"
  by (simp add: MemStorage_new_def defaultStats_def)

lemma mem_after_snoc:
  "\<exists>r. mem_statsAfter tz (cs @ [c1]) MemStorage_new = Some r \<and>
     lastStudyDate r = Some (fst c1) \<and> 1 \<le> streakDays r \<and>
     mem_statsAfter tz (cs @ [c1, c2]) MemStorage_new =
       Some (r\<lparr> totalStudyTime := totalStudyTime r + fst (snd c2),
                 lastStudyDate := Some (fst c2),
                 streakDays := streakAfter tz (fst c2) (fst c1) (streakDays r),
                 timeByCategory :=
                   Some (addCategoryTime (timeByCategory r) (snd (snd c2)) (fst (snd c2))) \<rparr>)"
proof -
  obtain s1 r1 where s1: "mem_run tz (cs @ [c1]) MemStorage_new = Inr s1"
      "studyStatsInstance s1 = Some r1" "lastStudyDate r1 = Some (fst c1)" "1 \<le> streakDays r1"
    using mem_run_shape[of "cs @ [c1]" MemStorage_new tz] MemStorage_new_inv by auto
  have split: "cs @ [c1, c2] = (cs @ [c1]) @ [c2]" by simp
  obtain now seconds category where c2: "c2 = (now, seconds, category)"
    by (cases c2) auto
  show ?thesis
    unfolding split mem_statsAfter_def mem_run_append[of tz "cs @ [c1]" "[c2]"]
    using s1 by (simp add: c2 mem_getStudyStats_def mem_increase_result Let_def)
qed

lemma db_after_snoc:
  "\<exists>r. db_statsAfter tz (cs @ [c1]) DbStorage_new = Some r \<and>
     lastStudyDate r = Some (fst c1) \<and> 1 \<le> streakDays r \<and>
     db_statsAfter tz (cs @ [c1, c2]) DbStorage_new =
       Some (r\<lparr> totalStudyTime := totalStudyTime r + fst (snd c2),
                 lastStudyDate := Some (fst c2),
                 streakDays := streakAfter tz (fst c2) (fst c1) (streakDays r),
                 timeByCategory :=
                   Some (addCategoryTime (timeByCategory r) (snd (snd c2)) (fst (snd c2))) \<rparr>)"
proof -
  obtain r1 where r1: "studyStatsTable (db_run tz (cs @ [c1]) DbStorage_new) = [r1]"
      "stats_userId r1 = None" "lastStudyDate r1 = Some (fst c1)" "1 \<le> streakDays r1"
    using db_run_shape[of "cs @ [c1]" tz] by auto
  have split: "cs @ [c1, c2] = (cs @ [c1]) @ [c2]" by simp
  obtain now seconds category where c2: "c2 = (now, seconds, category)"
    by (cases c2) auto
  show ?thesis
    unfolding split db_statsAfter_def db_run_append[of tz "cs @ [c1]" "[c2]"]
    using r1 by (simp add: c2 db_increase_single[OF r1(1,2)] db_getStudyStats_def Let_def)
qed

lemma startOfDay_mono: "t \<le> u \<Longrightarrow> startOfDay tz t \<le> startOfDay tz u"
  by (simp add: startOfDay_def msPerDay_def zdiv_mono1)

lemma same_day_trace:
  fixes F :: "call list \<Rightarrow> int"
  assumes step: "\<And>ps c1 c2. startOfDay tz (fst c2) = startOfDay tz (fst c1) \<Longrightarrow>
                   F (ps @ [c1, c2]) = F (ps @ [c1])"
    and srt: "sorted (map fst cs)"
    and ij: "i \<le> j" "j < length cs"
    and day: "startOfDay tz (fst (cs ! i)) = startOfDay tz (fst (cs ! j))"
  shows "F (take (Suc j) cs) = F (take (Suc i) cs)"
  using ij day
proof (induction j)
  case 0
  then show ?case by simp
next
  case (Suc j)
  show ?case
  proof (cases "i = Suc j")
    case True
    then show ?thesis by simp
  next
    case False
    with Suc.prems have ij: "i \<le> j" "j < length cs" "Suc j < length cs" by simp_all
    have t1: "fst (cs ! i) \<le> fst (cs ! j)"
      using srt ij by (simp add: sorted_iff_nth_mono)
    have t2: "fst (cs ! j) \<le> fst (cs ! Suc j)"
      using srt ij by (simp add: sorted_iff_nth_mono)
    have d1: "startOfDay tz (fst (cs ! i)) \<le> startOfDay tz (fst (cs ! j))"
      using t1 by (rule startOfDay_mono)
    have d2: "startOfDay tz (fst (cs ! j)) \<le> startOfDay tz (fst (cs ! Suc j))"
      using t2 by (rule startOfDay_mono)
    from d1 d2 Suc.prems(3) have eq1: "startOfDay tz (fst (cs ! i)) = startOfDay tz (fst (cs ! j))"
      and eq2: "startOfDay tz (fst (cs ! Suc j)) = startOfDay tz (fst (cs ! j))"
      by simp_all
    have "take (Suc (Suc j)) cs = take j cs @ [cs ! j, cs ! Suc j]"
      using ij by (simp add: take_Suc_conv_app_nth)
    moreover have "take (Suc j) cs = take j cs @ [cs ! j]"
      using ij by (simp add: take_Suc_conv_app_nth)
    ultimately have "F (take (Suc (Suc j)) cs) = F (take (Suc j) cs)"
      using step[OF eq2, of "take j cs"] by simp
    with Suc.IH[OF ij(1,2) eq1] show ?thesis by simp
  qed
qed


lemma mem_streak_ge1: "cs \<noteq> [] \<Longrightarrow> \<exists>k. mem_streakAfter tz cs = Some k \<and> 1 \<le> k"
  using mem_run_shape[of cs MemStorage_new tz] MemStorage_new_inv
  by (auto simp add: mem_streakAfter_def mem_statsAfter_def mem_getStudyStats_def)

lemma db_streak_ge1: "cs \<noteq> [] \<Longrightarrow> \<exists>k. db_streakAfter tz cs = Some k \<and> 1 \<le> k"
  using db_run_shape[of cs tz]
  by (auto simp add: db_streakAfter_def db_statsAfter_def db_getStudyStats_def)

lemma mem_streak_first: "mem_streakAfter tz [c] = Some 1"
  by (cases c) (simp add: mem_streakAfter_def mem_statsAfter_def mem_getStudyStats_def
      mem_increase_result MemStorage_new_def defaultStats_def Let_def)

lemma db_streak_first: "db_streakAfter tz [c] = Some 1"
  by (cases c) (simp add: db_streakAfter_def db_statsAfter_def db_getStudyStats_def
      db_increase_new Let_def)

lemma mem_streak_step:
  "\<exists>k. mem_streakAfter tz (ps @ [c1]) = Some k \<and>
       mem_streakAfter tz (ps @ [c1, c2]) = Some (streakAfter tz (fst c2) (fst c1) k)"
  using mem_after_snoc[of tz ps c1 c2] by (auto simp add: mem_streakAfter_def)

lemma db_streak_step:
  "\<exists>k. db_streakAfter tz (ps @ [c1]) = Some k \<and>
       db_streakAfter tz (ps @ [c1, c2]) = Some (streakAfter tz (fst c2) (fst c1) k)"
  using db_after_snoc[of tz ps c1 c2] by (auto simp add: db_streakAfter_def)

lemma mem_streak_same_day:
  "startOfDay tz (fst c2) = startOfDay tz (fst c1) \<Longrightarrow>
   mem_streakAfter tz (ps @ [c1, c2]) = mem_streakAfter tz (ps @ [c1])"
  using mem_streak_step[of tz ps c1 c2] by (auto simp add: streakAfter_cases)

lemma db_streak_same_day:
  "startOfDay tz (fst c2) = startOfDay tz (fst c1) \<Longrightarrow>
   db_streakAfter tz (ps @ [c1, c2]) = db_streakAfter tz (ps @ [c1])"
  using db_streak_step[of tz ps c1 c2] by (auto simp add: streakAfter_cases)

lemma mem_streak_gap:
  "startOfDay tz (fst c1) + 2 * msPerDay \<le> startOfDay tz (fst c2) \<Longrightarrow>
   mem_streakAfter tz (ps @ [c1, c2]) = Some 1"
  using mem_streak_step[of tz ps c1 c2] by (auto simp add: streakAfter_gap)

lemma db_streak_gap:
  "startOfDay tz (fst c1) + 2 * msPerDay \<le> startOfDay tz (fst c2) \<Longrightarrow>
   db_streakAfter tz (ps @ [c1, c2]) = Some 1"
  using db_streak_step[of tz ps c1 c2] by (auto simp add: streakAfter_gap)

lemma mem_streak_day:
  assumes "sorted (map fst cs)" "i \<le> j" "j < length cs"
    "startOfDay tz (fst (cs ! i)) = startOfDay tz (fst (cs ! j))"
  shows "\<exists>a b. mem_streakAfter tz (take (Suc i) cs) = Some a \<and>
           mem_streakAfter tz (take (Suc j) cs) = Some b \<and> a \<le> b"
proof -
  have "the (mem_streakAfter tz (take (Suc j) cs)) = the (mem_streakAfter tz (take (Suc i) cs))"
    using assms
    by (intro same_day_trace[where F = "\<lambda>xs. the (mem_streakAfter tz xs)" and tz = tz])
       (simp_all add: mem_streak_same_day)
  moreover from assms have "take (Suc i) cs \<noteq> []" "take (Suc j) cs \<noteq> []" by auto
  ultimately show ?thesis
    using mem_streak_ge1[of "take (Suc i) cs" tz] mem_streak_ge1[of "take (Suc j) cs" tz]
    by auto
qed

lemma db_streak_day:
  assumes "sorted (map fst cs)" "i \<le> j" "j < length cs"
    "startOfDay tz (fst (cs ! i)) = startOfDay tz (fst (cs ! j))"
  shows "\<exists>a b. db_streakAfter tz (take (Suc i) cs) = Some a \<and>
           db_streakAfter tz (take (Suc j) cs) = Some b \<and> a \<le> b"
proof -
  have "the (db_streakAfter tz (take (Suc j) cs)) = the (db_streakAfter tz (take (Suc i) cs))"
    using assms
    by (intro same_day_trace[where F = "\<lambda>xs. the (db_streakAfter tz xs)" and tz = tz])
       (simp_all add: db_streak_same_day)
  moreover from assms have "take (Suc i) cs \<noteq> []" "take (Suc j) cs \<noteq> []" by auto
  ultimately show ?thesis
    using db_streak_ge1[of "take (Suc i) cs" tz] db_streak_ge1[of "take (Suc j) cs" tz]
    by auto
qed


text \<open>
  C2. On a new storage of either kind, after any non-empty sequence of
  \<open>increaseStudyTime\<close> calls the streak is at least 1; the first call sets it to 1;
  a call two or more days after the previous one sets it to 1; a call on the day
  of the previous one leaves it as it is; and in a sequence of calls in clock
  order the streak after a later call of a day is not below the streak after an
  earlier call of that day.
\<close>

theorem C2_streak_invariant:
  "(cs \<noteq> [] \<longrightarrow>
      (\<exists>k. mem_streakAfter tz cs = Some k \<and> 1 \<le> k) \<and>
      (\<exists>k. db_streakAfter tz cs = Some k \<and> 1 \<le> k))
   \<and> mem_streakAfter tz [c] = Some 1
   \<and> db_streakAfter tz [c] = Some 1
   \<and> (startOfDay tz (fst c1) + 2 * msPerDay \<le> startOfDay tz (fst c2) \<longrightarrow>
        mem_streakAfter tz (ps @ [c1, c2]) = Some 1 \<and>
        db_streakAfter tz (ps @ [c1, c2]) = Some 1)
   \<and> (startOfDay tz (fst c2) = startOfDay tz (fst c1) \<longrightarrow>
        mem_streakAfter tz (ps @ [c1, c2]) = mem_streakAfter tz (ps @ [c1]) \<and>
        db_streakAfter tz (ps @ [c1, c2]) = db_streakAfter tz (ps @ [c1]))
   \<and> (sorted (map fst cs) \<and> i \<le> j \<and> j < length cs \<and>
        startOfDay tz (fst (cs ! i)) = startOfDay tz (fst (cs ! j)) \<longrightarrow>
        (\<exists>a b. mem_streakAfter tz (take (Suc i) cs) = Some a \<and>
           mem_streakAfter tz (take (Suc j) cs) = Some b \<and> a \<le> b) \<and>
        (\<exists>a b. db_streakAfter tz (take (Suc i) cs) = Some a \<and>
           db_streakAfter tz (take (Suc j) cs) = Some b \<and> a \<le> b))"
  using mem_streak_ge1[of cs tz] db_streak_ge1[of cs tz]
    mem_streak_first[of tz c] db_streak_first[of tz c]
    mem_streak_gap[of tz c1 c2 ps] db_streak_gap[of tz c1 c2 ps]
    mem_streak_same_day[of tz c2 c1 ps] db_streak_same_day[of tz c2 c1 ps]
    mem_streak_day[of cs i j tz] db_streak_day[of cs i j tz]
  by blast

theorem C2_streak_invariant_witness:
  "[(5, 100, None), (86400000, 60, Some ''Math''), (86400009, 30, None)] \<noteq> ([] :: call list) \<and>
   (\<exists>k. mem_streakAfter 0 [(5, 100, None), (86400000, 60, Some ''Math''), (86400009, 30, None)]
          = Some k \<and> 1 \<le> k) \<and>
   (\<exists>k. db_streakAfter 0 [(5, 100, None), (86400000, 60, Some ''Math''), (86400009, 30, None)]
          = Some k \<and> 1 \<le> k) \<and>
   startOfDay 0 5 + 2 * msPerDay \<le> startOfDay 0 172800000 \<and>
   mem_streakAfter 0 ([(1, 10, None)] @ [(5, 10, None), (172800000, 10, None)]) = Some 1 \<and>
   db_streakAfter 0 ([(1, 10, None)] @ [(5, 10, None), (172800000, 10, None)]) = Some 1 \<and>
   sorted (map fst [(5::int, 100::int, None :: string option), (86400000, 60, Some ''Math''),
                    (86400009, 30, None)]) \<and>
   startOfDay 0 86400000 = startOfDay 0 86400009 \<and>
   (\<exists>a b. mem_streakAfter 0 [(5, 100, None), (86400000, 60, Some ''Math'')] = Some a \<and>
      mem_streakAfter 0 [(5, 100, None), (86400000, 60, Some ''Math''), (86400009, 30, None)]
        = Some b \<and> a \<le> b) \<and>
   (\<exists>a b. db_streakAfter 0 [(5, 100, None), (86400000, 60, Some ''Math'')] = Some a \<and>
      db_streakAfter 0 [(5, 100, None), (86400000, 60, Some ''Math''), (86400009, 30, None)]
        = Some b \<and> a \<le> b)"
proof -
  have gap: "startOfDay 0 5 + 2 * msPerDay \<le> startOfDay 0 172800000"
    by (simp add: startOfDay_def msPerDay_def)
  have day: "startOfDay 0 86400000 = startOfDay 0 86400009"
    by (simp add: startOfDay_def msPerDay_def)
  show ?thesis
    using gap day
      C2_streak_invariant [of
        "[(5, 100, None), (86400000, 60, Some ''Math''), (86400009, 30, None)]"
        0 "(1, 10, None)" "(5, 10, None)" "(172800000, 10, None)" "[(1, 10, None)]" 1 2]
    by simp
qed


section \<open>The study_stats table\<close>

lemma firstRow_filter_Some:
  "firstRow (filter P xs) = Some x \<Longrightarrow> x \<in> set xs \<and> P x"
  by (induction xs) (auto split: if_splits)

lemma filter_by_id:
  "distinct (map stats_id xs) \<Longrightarrow> x \<in> set xs \<Longrightarrow> filter (\<lambda>r. stats_id r = stats_id x) xs = [x]"
proof (induction xs)
  case Nil
  then show ?case by simp
next
  case (Cons a xs)
  show ?case
  proof (cases "a = x")
    case True
    with Cons.prems(1) have "\<forall>r \<in> set xs. stats_id r \<noteq> stats_id x"
      by (auto simp add: image_iff)
    then have "filter (\<lambda>r. stats_id r = stats_id x) xs = []" by (simp add: filter_empty_conv)
    with True show ?thesis by simp
  next
    case False
    with Cons.prems have "x \<in> set xs" "stats_id a \<noteq> stats_id x" by auto
    with Cons show ?thesis by simp
  qed
qed

lemma firstRow_after_update:
  "firstRow (filter P xs) = Some x \<Longrightarrow> distinct (map stats_id xs) \<Longrightarrow> P (f x) \<Longrightarrow>
   firstRow (filter P (map (\<lambda>r. if stats_id r = stats_id x then f r else r) xs)) = Some (f x)"
proof (induction xs)
  case Nil
  then show ?case by simp
next
  case (Cons a xs)
  show ?case
  proof (cases "P a")
    case True
    with Cons.prems show ?thesis by simp
  next
    case False
    with Cons.prems have x: "firstRow (filter P xs) = Some x" by simp
    then have "x \<in> set xs" using firstRow_filter_Some by fastforce
    with Cons.prems have "stats_id a \<noteq> stats_id x" by auto
    with False Cons.IH[OF x] Cons.prems show ?thesis by simp
  qed
qed

lemma db_increase_found:
  assumes cur: "db_getStudyStats d = Some cur"
    and dist: "distinct (map stats_id (studyStatsTable d))"
  shows "\<exists>r d'. db_increaseStudyTime tz now seconds category d = (Some r, d') \<and>
     db_getStudyStats d' = Some r \<and>
     r = cur\<lparr> totalStudyTime := totalStudyTime cur + seconds,
               lastStudyDate := Some now,
               streakDays := (case lastStudyDate cur of
                    Some lastStudy \<Rightarrow> streakAfter tz now lastStudy (streakDays cur)
                  | None \<Rightarrow> streakDays cur),
               timeByCategory := Some (addCategoryTime (timeByCategory cur) category seconds) \<rparr>"
proof -
  let ?f = "\<lambda>r. r\<lparr> totalStudyTime := totalStudyTime cur + seconds,
               lastStudyDate := Some now,
               streakDays := (case lastStudyDate cur of
                    Some lastStudy \<Rightarrow> streakAfter tz now lastStudy (streakDays cur)
                  | None \<Rightarrow> streakDays cur),
               timeByCategory := Some (addCategoryTime (timeByCategory cur) category seconds) \<rparr>"
  from cur have first: "firstRow (filter (\<lambda>r. stats_userId r = None) (studyStatsTable d)) = Some cur"
    by (simp add: db_getStudyStats_def)
  then have mem: "cur \<in> set (studyStatsTable d)" "stats_userId cur = None"
    using firstRow_filter_Some by fastforce+
  have ret: "filter (\<lambda>r. stats_id r = stats_id cur) (studyStatsTable d) = [cur]"
    using filter_by_id[OF dist mem(1)] .
  have get: "firstRow (filter (\<lambda>r. stats_userId r = None)
               (map (\<lambda>r. if stats_id r = stats_id cur then ?f r else r) (studyStatsTable d)))
             = Some (?f cur)"
    using firstRow_after_update[OF first dist, of ?f] mem(2) by simp
  show ?thesis
    using cur ret get
    by (simp add: db_increaseStudyTime_def db_updateStudyStatsById_def Let_def db_getStudyStats_def)
qed

lemma db_increase_frame:
  assumes "db_getStudyStats d = Some cur"
  shows "map stats_id (studyStatsTable (snd (db_increaseStudyTime tz now seconds category d)))
           = map stats_id (studyStatsTable d)"
    and "map stats_userId (studyStatsTable (snd (db_increaseStudyTime tz now seconds category d)))
           = map stats_userId (studyStatsTable d)"
    and "map dailyGoal (studyStatsTable (snd (db_increaseStudyTime tz now seconds category d)))
           = map dailyGoal (studyStatsTable d)"
    and "map weeklyGoal (studyStatsTable (snd (db_increaseStudyTime tz now seconds category d)))
           = map weeklyGoal (studyStatsTable d)"
  using assms
  by (simp_all add: db_increaseStudyTime_def db_updateStudyStatsById_def Let_def comp_def)

text \<open>
  C9. A call of \<open>increaseStudyTime\<close> on a stored record returns a record with the
  same \<open>id\<close>, \<open>userId\<close>, \<open>dailyGoal\<close> and \<open>weeklyGoal\<close>, in both storages (for the
  table, under its primary key); and every row of the table keeps these four
  columns.
\<close>

theorem C9_frame:
  "(\<forall>inst. mem_getStudyStats s = Some inst \<longrightarrow>
      (\<exists>r s'. mem_increaseStudyTime tz now seconds category s = Inr (r, s') \<and>
         mem_getStudyStats s' = Some r \<and>
         stats_id r = stats_id inst \<and> stats_userId r = stats_userId inst \<and>
         dailyGoal r = dailyGoal inst \<and> weeklyGoal r = weeklyGoal inst))
   \<and> (\<forall>cur. db_getStudyStats d = Some cur \<and> distinct (map stats_id (studyStatsTable d)) \<longrightarrow>
      (\<exists>r d'. db_increaseStudyTime tz now seconds category d = (Some r, d') \<and>
         db_getStudyStats d' = Some r \<and>
         stats_id r = stats_id cur \<and> stats_userId r = stats_userId cur \<and>
         dailyGoal r = dailyGoal cur \<and> weeklyGoal r = weeklyGoal cur))
   \<and> (db_getStudyStats d \<noteq> None \<longrightarrow>
        map stats_id (studyStatsTable (snd (db_increaseStudyTime tz now seconds category d)))
          = map stats_id (studyStatsTable d) \<and>
        map stats_userId (studyStatsTable (snd (db_increaseStudyTime tz now seconds category d)))
          = map stats_userId (studyStatsTable d) \<and>
        map dailyGoal (studyStatsTable (snd (db_increaseStudyTime tz now seconds category d)))
          = map dailyGoal (studyStatsTable d) \<and>
        map weeklyGoal (studyStatsTable (snd (db_increaseStudyTime tz now seconds category d)))
          = map weeklyGoal (studyStatsTable d))"
proof (intro conjI allI impI)
  fix inst
  assume "mem_getStudyStats s = Some inst"
  then show "\<exists>r s'. mem_increaseStudyTime tz now seconds category s = Inr (r, s') \<and>
         mem_getStudyStats s' = Some r \<and>
         stats_id r = stats_id inst \<and> stats_userId r = stats_userId inst \<and>
         dailyGoal r = dailyGoal inst \<and> weeklyGoal r = weeklyGoal inst"
    by (simp add: mem_increase_result mem_getStudyStats_def Let_def)
next
  fix cur
  assume "db_getStudyStats d = Some cur \<and> distinct (map stats_id (studyStatsTable d))"
  then obtain r d' where "db_increaseStudyTime tz now seconds category d = (Some r, d')"
    "db_getStudyStats d' = Some r"
    "r = cur\<lparr> totalStudyTime := totalStudyTime cur + seconds,
               lastStudyDate := Some now,
               streakDays := (case lastStudyDate cur of
                    Some lastStudy \<Rightarrow> streakAfter tz now lastStudy (streakDays cur)
                  | None \<Rightarrow> streakDays cur),
               timeByCategory := Some (addCategoryTime (timeByCategory cur) category seconds) \<rparr>"
    using db_increase_found[of d cur tz now seconds category] by blast
  then show "\<exists>r d'. db_increaseStudyTime tz now seconds category d = (Some r, d') \<and>
         db_getStudyStats d' = Some r \<and>
         stats_id r = stats_id cur \<and> stats_userId r = stats_userId cur \<and>
         dailyGoal r = dailyGoal cur \<and> weeklyGoal r = weeklyGoal cur"
    by simp
qed (auto simp add: db_increase_frame)

theorem C9_frame_witness:
  "mem_getStudyStats MemStorage_new = Some defaultStats \<and>
   (\<exists>r s'. mem_increaseStudyTime 0 5 100 (Some ''Math'') MemStorage_new = Inr (r, s') \<and>
      mem_getStudyStats s' = Some r \<and>
      stats_id r = 1 \<and> stats_userId r = None \<and> dailyGoal r = 7200 \<and> weeklyGoal r = 36000) \<and>
   db_getStudyStats \<lparr> studyStatsTable = [defaultStats\<lparr>stats_userId := Some 3\<rparr>, defaultStats\<lparr>stats_id := 2\<rparr>],
                      studyStatsSerial = 3 \<rparr> = Some (defaultStats\<lparr>stats_id := 2\<rparr>) \<and>
   distinct (map stats_id [defaultStats\<lparr>stats_userId := Some 3\<rparr>, defaultStats\<lparr>stats_id := 2\<rparr>]) \<and>
   (\<exists>r d'. db_increaseStudyTime 0 5 100 (Some ''Math'')
              \<lparr> studyStatsTable = [defaultStats\<lparr>stats_userId := Some 3\<rparr>, defaultStats\<lparr>stats_id := 2\<rparr>],
                studyStatsSerial = 3 \<rparr> = (Some r, d') \<and>
      db_getStudyStats d' = Some r \<and>
      stats_id r = 2 \<and> stats_userId r = None \<and> dailyGoal r = 7200 \<and> weeklyGoal r = 36000)"
  using C9_frame [of MemStorage_new 0 5 100 "Some ''Math''"
      "\<lparr> studyStatsTable = [defaultStats\<lparr>stats_userId := Some 3\<rparr>, defaultStats\<lparr>stats_id := 2\<rparr>],
         studyStatsSerial = 3 \<rparr>"]
  by (simp add: mem_getStudyStats_def db_getStudyStats_def MemStorage_new_def defaultStats_def)


section \<open>Category time\<close>

lemma addCategoryTime_none:
  "\<not> truthy category \<Longrightarrow> addCategoryTime stored category seconds = orEmpty stored"
  by (simp add: addCategoryTime_def)

lemma addCategoryTime_absent:
  "c \<noteq> [] \<Longrightarrow> c \<notin> set objectPrototypeNames \<Longrightarrow> orEmpty stored c = None \<Longrightarrow>
   addCategoryTime stored (Some c) seconds = (orEmpty stored)(c \<mapsto> Num seconds)"
  by (simp add: addCategoryTime_def readProperty_def)

lemma addCategoryTime_number:
  "c \<noteq> [] \<Longrightarrow> orEmpty stored c = Some (Num v) \<Longrightarrow>
   addCategoryTime stored (Some c) seconds = (orEmpty stored)(c \<mapsto> Num (v + seconds))"
  by (simp add: addCategoryTime_def readProperty_def)

lemma addCategoryTime_inherited:
  "c \<in> set objectPrototypeNames \<Longrightarrow> orEmpty stored c = None \<Longrightarrow>
   addCategoryTime stored (Some c) seconds = (orEmpty stored)(c \<mapsto> Text)"
  by (auto simp add: addCategoryTime_def readProperty_def objectPrototypeNames_def)

text \<open>
  C3, as stated, at two inputs. At a stored \<open>timeByCategory\<close> of \<open>null\<close> (written by
  \<open>updateStudyStats({timeByCategory: null})\<close>) a call without a category returns
  the empty object, not the stored \<open>null\<close>. On a new storage the call
  \<open>increaseStudyTime(100, "constructor")\<close> reads the inherited \<open>constructor\<close> as
  the prior value and stores a string under that key, not 0 plus 100.
\<close>

theorem C3_null_counterexample:
  "map_option timeByCategory
     (mem_statsAfter 0 [(0, 100, None)]
        (snd (mem_updateStudyStats (noStatsUpdate\<lparr>statsU_timeByCategory := Some None\<rparr>)
                MemStorage_new)))
   \<noteq> map_option timeByCategory
       (mem_getStudyStats
          (snd (mem_updateStudyStats (noStatsUpdate\<lparr>statsU_timeByCategory := Some None\<rparr>)
                  MemStorage_new)))
   \<and> map_option (\<lambda>r. orEmpty (timeByCategory r) ''constructor'')
         (mem_statsAfter 0 [(0, 100, Some ''constructor'')] MemStorage_new)
       = Some (Some Text)
   \<and> map_option (\<lambda>r. orEmpty (timeByCategory r) ''constructor'')
         (mem_statsAfter 0 [(0, 100, Some ''constructor'')] MemStorage_new)
       \<noteq> Some (Some (Num (0 + 100)))"
  by (simp add: mem_statsAfter_def mem_getStudyStats_def mem_increase_result
      mem_updateStudyStats_def MemStorage_new_def mergeStudyStats_def noStatsUpdate_def
      defaultStats_def Let_def addCategoryTime_def readProperty_def objectPrototypeNames_def)

text \<open>
  C3, amended. A call of \<open>increaseStudyTime\<close> returns a record. While the
  seconds, the stored total and their sum are safe integers, \<open>totalStudyTime\<close>
  grows by the seconds. With a non-empty category that is not a name inherited
  from \<open>Object.prototype\<close>, whose stored value is absent (prior value 0) or a
  number, and while the seconds, the prior value and their sum are safe
  integers, the returned object maps the category to the prior value plus the
  seconds and agrees with the stored one at every other key. With no category,
  or the empty one, the returned object has the stored keys and values: it is
  the stored object, or the empty object when \<open>null\<close> was stored. From a new
  storage, (50, Math), (30, Math), (20, Physics) give \<open>{Math: 80, Physics: 20}\<close>
  and the total 100.
\<close>

theorem C3_category_time:
  "(\<exists>r s'. mem_increaseStudyTime tz now seconds category s = Inr (r, s') \<and>
      mem_getStudyStats s' = Some r \<and>
      (\<forall>inst. mem_getStudyStats s = Some inst \<longrightarrow>
         (safeInteger seconds \<and> safeInteger (totalStudyTime inst) \<and>
          safeInteger (totalStudyTime inst + seconds) \<longrightarrow>
            totalStudyTime r = totalStudyTime inst + seconds) \<and>
         (\<forall>c v. category = Some c \<and> c \<noteq> [] \<and> c \<notin> set objectPrototypeNames \<and>
                (orEmpty (timeByCategory inst) c = None \<and> v = 0 \<or>
                 orEmpty (timeByCategory inst) c = Some (Num v)) \<and>
                safeInteger seconds \<and> safeInteger v \<and> safeInteger (v + seconds) \<longrightarrow>
            (\<exists>m'. timeByCategory r = Some m' \<and>
               m' c = Some (Num (v + seconds)) \<and>
               (\<forall>k. k \<noteq> c \<longrightarrow> m' k = orEmpty (timeByCategory inst) k))) \<and>
         (category = None \<or> category = Some [] \<longrightarrow>
            timeByCategory r = Some (orEmpty (timeByCategory inst)) \<and>
            (timeByCategory inst \<noteq> None \<longrightarrow> timeByCategory r = timeByCategory inst))))
   \<and> map_option timeByCategory
        (mem_statsAfter tz
           [(t1, 50, Some ''Math''), (t2, 30, Some ''Math''), (t3, 20, Some ''Physics'')]
           MemStorage_new)
      = Some (Some [''Math'' \<mapsto> Num 80, ''Physics'' \<mapsto> Num 20])
   \<and> map_option totalStudyTime
        (mem_statsAfter tz
           [(t1, 50, Some ''Math''), (t2, 30, Some ''Math''), (t3, 20, Some ''Physics'')]
           MemStorage_new)
      = Some 100"
proof (intro conjI)
  let ?inst = "case studyStatsInstance s of None \<Rightarrow> defaultStats | Some r \<Rightarrow> r"
  let ?r = "?inst\<lparr> totalStudyTime := totalStudyTime ?inst + seconds,
                     lastStudyDate := Some now,
                     streakDays := (case lastStudyDate ?inst of
                          Some lastStudy \<Rightarrow> streakAfter tz now lastStudy (streakDays ?inst)
                        | None \<Rightarrow> 1),
                     timeByCategory :=
                       Some (addCategoryTime (timeByCategory ?inst) category seconds) \<rparr>"
  have run: "mem_increaseStudyTime tz now seconds category s
               = Inr (?r, s\<lparr>studyStatsInstance := Some ?r\<rparr>)"
    by (simp add: mem_increase_result Let_def)
  have stored: "mem_getStudyStats (s\<lparr>studyStatsInstance := Some ?r\<rparr>) = Some ?r"
    by (simp add: mem_getStudyStats_def)
  have props: "\<forall>inst. mem_getStudyStats s = Some inst \<longrightarrow>
         (safeInteger seconds \<and> safeInteger (totalStudyTime inst) \<and>
          safeInteger (totalStudyTime inst + seconds) \<longrightarrow>
            totalStudyTime ?r = totalStudyTime inst + seconds) \<and>
         (\<forall>c v. category = Some c \<and> c \<noteq> [] \<and> c \<notin> set objectPrototypeNames \<and>
                (orEmpty (timeByCategory inst) c = None \<and> v = 0 \<or>
                 orEmpty (timeByCategory inst) c = Some (Num v)) \<and>
                safeInteger seconds \<and> safeInteger v \<and> safeInteger (v + seconds) \<longrightarrow>
            (\<exists>m'. timeByCategory ?r = Some m' \<and>
               m' c = Some (Num (v + seconds)) \<and>
               (\<forall>k. k \<noteq> c \<longrightarrow> m' k = orEmpty (timeByCategory inst) k))) \<and>
         (category = None \<or> category = Some [] \<longrightarrow>
            timeByCategory ?r = Some (orEmpty (timeByCategory inst)) \<and>
            (timeByCategory inst \<noteq> None \<longrightarrow> timeByCategory ?r = timeByCategory inst))"
  proof (intro allI impI conjI)
    fix inst
    assume inst: "mem_getStudyStats s = Some inst"
    then have eq: "?inst = inst" by (simp add: mem_getStudyStats_def)
    show "totalStudyTime ?r = totalStudyTime inst + seconds"
      by (simp add: eq)
    show "timeByCategory ?r = Some (orEmpty (timeByCategory inst))"
      if "category = None \<or> category = Some []"
      using that by (auto simp add: eq addCategoryTime_none)
    show "timeByCategory ?r = timeByCategory inst"
      if "category = None \<or> category = Some []" "timeByCategory inst \<noteq> None"
      using that by (auto simp add: eq addCategoryTime_none)
    fix c v
    assume h: "category = Some c \<and> c \<noteq> [] \<and> c \<notin> set objectPrototypeNames \<and>
                (orEmpty (timeByCategory inst) c = None \<and> v = 0 \<or>
                 orEmpty (timeByCategory inst) c = Some (Num v)) \<and>
                safeInteger seconds \<and> safeInteger v \<and> safeInteger (v + seconds)"
    then have "addCategoryTime (timeByCategory inst) category seconds
                 = (orEmpty (timeByCategory inst))(c \<mapsto> Num (v + seconds))"
      using addCategoryTime_absent[of c "timeByCategory inst" seconds]
        addCategoryTime_number[of c "timeByCategory inst" v seconds]
      by auto
    then show "\<exists>m'. timeByCategory ?r = Some m' \<and>
               m' c = Some (Num (v + seconds)) \<and>
               (\<forall>k. k \<noteq> c \<longrightarrow> m' k = orEmpty (timeByCategory inst) k)"
      by (simp add: eq)
  qed
  show "\<exists>r s'. mem_increaseStudyTime tz now seconds category s = Inr (r, s') \<and>
      mem_getStudyStats s' = Some r \<and>
      (\<forall>inst. mem_getStudyStats s = Some inst \<longrightarrow>
         (safeInteger seconds \<and> safeInteger (totalStudyTime inst) \<and>
          safeInteger (totalStudyTime inst + seconds) \<longrightarrow>
            totalStudyTime r = totalStudyTime inst + seconds) \<and>
         (\<forall>c v. category = Some c \<and> c \<noteq> [] \<and> c \<notin> set objectPrototypeNames \<and>
                (orEmpty (timeByCategory inst) c = None \<and> v = 0 \<or>
                 orEmpty (timeByCategory inst) c = Some (Num v)) \<and>
                safeInteger seconds \<and> safeInteger v \<and> safeInteger (v + seconds) \<longrightarrow>
            (\<exists>m'. timeByCategory r = Some m' \<and>
               m' c = Some (Num (v + seconds)) \<and>
               (\<forall>k. k \<noteq> c \<longrightarrow> m' k = orEmpty (timeByCategory inst) k))) \<and>
         (category = None \<or> category = Some [] \<longrightarrow>
            timeByCategory r = Some (orEmpty (timeByCategory inst)) \<and>
            (timeByCategory inst \<noteq> None \<longrightarrow> timeByCategory r = timeByCategory inst)))"
    using run stored props by blast
  note steps = mem_statsAfter_def mem_getStudyStats_def mem_increase_result
    MemStorage_new_def defaultStats_def Let_def addCategoryTime_def readProperty_def
    objectPrototypeNames_def
  show "map_option timeByCategory
        (mem_statsAfter tz
           [(t1, 50, Some ''Math''), (t2, 30, Some ''Math''), (t3, 20, Some ''Physics'')]
           MemStorage_new)
      = Some (Some [''Math'' \<mapsto> Num 80, ''Physics'' \<mapsto> Num 20])"
    by (simp add: steps)
  show "map_option totalStudyTime
        (mem_statsAfter tz
           [(t1, 50, Some ''Math''), (t2, 30, Some ''Math''), (t3, 20, Some ''Physics'')]
           MemStorage_new)
      = Some 100"
    by (simp add: steps)
qed

theorem C3_category_time_witness:
  "mem_getStudyStats
     (MemStorage_new\<lparr>studyStatsInstance :=
        Some (defaultStats\<lparr>totalStudyTime := 50, timeByCategory := Some [''Math'' \<mapsto> Num 50]\<rparr>)\<rparr>)
     = Some (defaultStats\<lparr>totalStudyTime := 50, timeByCategory := Some [''Math'' \<mapsto> Num 50]\<rparr>) \<and>
   ''Math'' \<notin> set objectPrototypeNames \<and>
   safeInteger 30 \<and> safeInteger 50 \<and> safeInteger (50 + 30) \<and>
   (\<exists>r s' m'. mem_increaseStudyTime 0 5 30 (Some ''Math'')
       (MemStorage_new\<lparr>studyStatsInstance :=
          Some (defaultStats\<lparr>totalStudyTime := 50, timeByCategory := Some [''Math'' \<mapsto> Num 50]\<rparr>)\<rparr>)
       = Inr (r, s') \<and>
      totalStudyTime r = 50 + 30 \<and> timeByCategory r = Some m' \<and>
      m' ''Math'' = Some (Num (50 + 30)) \<and> m' ''Physics'' = None)"
proof -
  let ?inst = "defaultStats\<lparr>totalStudyTime := 50, timeByCategory := Some [''Math'' \<mapsto> Num 50]\<rparr>"
  let ?s = "MemStorage_new\<lparr>studyStatsInstance := Some ?inst\<rparr>"
  have stored: "mem_getStudyStats ?s = Some ?inst"
    by (simp add: mem_getStudyStats_def)
  have name: "''Math'' \<notin> set objectPrototypeNames"
    by (simp add: objectPrototypeNames_def)
  have safe: "safeInteger 30" "safeInteger 50" "safeInteger (50 + 30)"
    by (simp_all add: safeInteger_def)
  have prior: "orEmpty (timeByCategory ?inst) ''Math'' = Some (Num 50)"
    "orEmpty (timeByCategory ?inst) ''Physics'' = None"
    "totalStudyTime ?inst = 50"
    by simp_all
  obtain r s' where r: "mem_increaseStudyTime 0 5 30 (Some ''Math'') ?s = Inr (r, s')"
    and props: "\<forall>inst. mem_getStudyStats ?s = Some inst \<longrightarrow>
         (safeInteger 30 \<and> safeInteger (totalStudyTime inst) \<and>
          safeInteger (totalStudyTime inst + 30) \<longrightarrow>
            totalStudyTime r = totalStudyTime inst + 30) \<and>
         (\<forall>c v. Some ''Math'' = Some c \<and> c \<noteq> [] \<and> c \<notin> set objectPrototypeNames \<and>
                (orEmpty (timeByCategory inst) c = None \<and> v = 0 \<or>
                 orEmpty (timeByCategory inst) c = Some (Num v)) \<and>
                safeInteger 30 \<and> safeInteger v \<and> safeInteger (v + 30) \<longrightarrow>
            (\<exists>m'. timeByCategory r = Some m' \<and>
               m' c = Some (Num (v + 30)) \<and>
               (\<forall>k. k \<noteq> c \<longrightarrow> m' k = orEmpty (timeByCategory inst) k))) \<and>
         (Some ''Math'' = None \<or> Some ''Math'' = Some [] \<longrightarrow>
            timeByCategory r = Some (orEmpty (timeByCategory inst)) \<and>
            (timeByCategory inst \<noteq> None \<longrightarrow> timeByCategory r = timeByCategory inst))"
    using C3_category_time [of 0 5 30 "Some ''Math''" ?s 0 0 0] by blast
  from props stored safe prior(3) have total: "totalStudyTime r = 50 + 30"
    by simp
  from props stored name safe prior(1) obtain m' where
    m': "timeByCategory r = Some m'" "m' ''Math'' = Some (Num (50 + 30))"
      "\<forall>k. k \<noteq> ''Math'' \<longrightarrow> m' k = orEmpty (timeByCategory ?inst) k"
    by force
  from m'(3) prior(2) have "m' ''Physics'' = None" by simp
  with stored name safe r total m' show ?thesis by blast
qed

section \<open>The two storages compared\<close>

text \<open>
  Where the two storages agree: on a stored record that has a \<open>lastStudyDate\<close>,
  and when neither holds a record and the category is not a name inherited from
  \<open>Object.prototype\<close> (the table's first row is written as a literal, without a
  read of the prior value).
\<close>

lemma increaseStudyTime_agree_dated:
  assumes "mem_getStudyStats s = Some cur" "db_getStudyStats d = Some cur"
    "distinct (map stats_id (studyStatsTable d))" "lastStudyDate cur \<noteq> None"
  shows "\<exists>r s' d'. mem_increaseStudyTime tz now seconds category s = Inr (r, s') \<and>
           db_increaseStudyTime tz now seconds category d = (Some r, d')"
  using assms db_increase_found[of d cur tz now seconds category]
  by (auto simp add: mem_increase_result mem_getStudyStats_def Let_def)

lemma increaseStudyTime_agree_fresh:
  assumes "mem_getStudyStats s = None"
    and "\<forall>c. category = Some c \<longrightarrow> c \<notin> set objectPrototypeNames"
  shows "\<exists>r s' d'. mem_increaseStudyTime tz now seconds category s = Inr (r, s') \<and>
           db_increaseStudyTime tz now seconds category DbStorage_new = (Some r, d')"
  using assms
  by (cases category)
     (auto simp add: mem_increase_result mem_getStudyStats_def Let_def db_increase_new
        defaultStats_def addCategoryTime_def readProperty_def)


text \<open>
  C5. The two storages hold the same record, with no \<open>lastStudyDate\<close> and streak
  0 (new in memory; in the table after \<open>updateStudyStats({lastStudyDate: null})\<close>).
  One call of \<open>increaseStudyTime\<close> gives streak 1 in memory and leaves 0 in the
  table. Likewise after \<open>updateStudyStats({})\<close> on both new storages and a call on
  the same day.
\<close>

theorem C5_divergence:
  "db_getStudyStats
     (snd (db_updateStudyStats 0 (noStatsUpdate\<lparr>statsU_lastStudyDate := Some None\<rparr>) DbStorage_new))
     = mem_getStudyStats MemStorage_new \<and>
   map_option streakDays (mem_statsAfter 0 [(0, 100, None)] MemStorage_new) = Some 1 \<and>
   map_option streakDays
     (db_statsAfter 0 [(0, 100, None)]
        (snd (db_updateStudyStats 0 (noStatsUpdate\<lparr>statsU_lastStudyDate := Some None\<rparr>)
                DbStorage_new))) = Some 0 \<and>
   map_option streakDays
     (mem_statsAfter 0 [(5, 100, None)] (snd (mem_updateStudyStats noStatsUpdate MemStorage_new)))
     = Some 1 \<and>
   map_option streakDays
     (db_statsAfter 0 [(5, 100, None)] (snd (db_updateStudyStats 0 noStatsUpdate DbStorage_new)))
     = Some 0"
  by (simp add: db_updateStudyStats_def db_getStudyStats_def DbStorage_new_def
      db_insertStudyStats_def mergeStudyStats_def noStatsUpdate_def defaultStats_def
      mem_getStudyStats_def MemStorage_new_def mem_statsAfter_def db_statsAfter_def
      mem_increase_result db_increaseStudyTime_def db_updateStudyStatsById_def
      mem_updateStudyStats_def Let_def streakAfter_def startOfDay_def previousDay_def msPerDay_def)

section \<open>Tasks and study sessions\<close>

lemma map_of_Some_key:
  assumes "map_of al k = Some v"
  shows "k \<in> set (map fst al)"
proof -
  from assms have "(k, v) \<in> set al" by (rule map_of_SomeD)
  then have "fst (k, v) \<in> fst ` set al" by (rule imageI)
  then show ?thesis by simp
qed

lemma update_present_keys:
  "map_of al k = Some v \<Longrightarrow> map fst (AList.update k w al) = map fst al"
  using map_of_Some_key[of al k v] by (simp add: update_keys)

text \<open>
  C7. \<open>updateTask\<close> on an id that the task map does not hold returns nothing and
  leaves the storage as it was. On a stored id it returns the stored task with
  the supplied properties replaced and every other property kept, stores it
  under the same id, and leaves the other tasks, the keys of the map and the
  rest of the storage as they were.
\<close>

theorem C7_updateTask:
  "(mem_getTask i s = None \<longrightarrow> mem_updateTask i updateData s = (None, s))
   \<and> (\<forall>task. mem_getTask i s = Some task \<longrightarrow>
        (\<exists>t s'. mem_updateTask i updateData s = (Some t, s') \<and>
           mem_getTask i s' = Some t \<and>
           task_text t = (case taskU_text updateData of None \<Rightarrow> task_text task | Some v \<Rightarrow> v) \<and>
           task_completed t =
             (case taskU_completed updateData of None \<Rightarrow> task_completed task | Some v \<Rightarrow> v) \<and>
           task_dueDate t =
             (case taskU_dueDate updateData of None \<Rightarrow> task_dueDate task | Some v \<Rightarrow> v) \<and>
           task_id t = task_id task \<and> task_createdAt t = task_createdAt task \<and>
           (\<forall>j. j \<noteq> i \<longrightarrow> mem_getTask j s' = mem_getTask j s) \<and>
           map fst (tasksMap s') = map fst (tasksMap s) \<and>
           s' = s\<lparr>tasksMap := tasksMap s'\<rparr>))"
proof (intro conjI allI impI)
  assume "mem_getTask i s = None"
  then show "mem_updateTask i updateData s = (None, s)"
    by (simp add: mem_getTask_def mem_updateTask_def)
next
  fix task
  assume "mem_getTask i s = Some task"
  then have stored: "map_of (tasksMap s) i = Some task"
    by (simp add: mem_getTask_def)
  let ?t = "mergeTask task updateData"
  let ?s' = "s\<lparr>tasksMap := AList.update i ?t (tasksMap s)\<rparr>"
  have run: "mem_updateTask i updateData s = (Some ?t, ?s')"
    using stored by (simp add: mem_updateTask_def Let_def)
  have fields:
    "task_text ?t = (case taskU_text updateData of None \<Rightarrow> task_text task | Some v \<Rightarrow> v)"
    "task_completed ?t =
       (case taskU_completed updateData of None \<Rightarrow> task_completed task | Some v \<Rightarrow> v)"
    "task_dueDate ?t =
       (case taskU_dueDate updateData of None \<Rightarrow> task_dueDate task | Some v \<Rightarrow> v)"
    "task_id ?t = task_id task" "task_createdAt ?t = task_createdAt task"
    by (simp_all add: mergeTask_def split: option.splits)
  have get: "mem_getTask i ?s' = Some ?t"
    by (simp add: mem_getTask_def update_conv')
  have others: "\<forall>j. j \<noteq> i \<longrightarrow> mem_getTask j ?s' = mem_getTask j s"
    by (simp add: mem_getTask_def update_conv')
  have keys: "map fst (tasksMap ?s') = map fst (tasksMap s)"
    using stored by (simp add: update_present_keys)
  have rest: "?s' = s\<lparr>tasksMap := tasksMap ?s'\<rparr>"
    by simp
  show "\<exists>t s'. mem_updateTask i updateData s = (Some t, s') \<and>
           mem_getTask i s' = Some t \<and>
           task_text t = (case taskU_text updateData of None \<Rightarrow> task_text task | Some v \<Rightarrow> v) \<and>
           task_completed t =
             (case taskU_completed updateData of None \<Rightarrow> task_completed task | Some v \<Rightarrow> v) \<and>
           task_dueDate t =
             (case taskU_dueDate updateData of None \<Rightarrow> task_dueDate task | Some v \<Rightarrow> v) \<and>
           task_id t = task_id task \<and> task_createdAt t = task_createdAt task \<and>
           (\<forall>j. j \<noteq> i \<longrightarrow> mem_getTask j s' = mem_getTask j s) \<and>
           map fst (tasksMap s') = map fst (tasksMap s) \<and>
           s' = s\<lparr>tasksMap := tasksMap s'\<rparr>"
    using run get fields others keys rest by blast
qed

theorem C7_updateTask_witness:
  "mem_getTask 2 (MemStorage_new\<lparr>tasksMap :=
       [(1, \<lparr>task_id = 1, task_text = ''Buy milk'', task_completed = False,
              task_dueDate = None, task_createdAt = 1000\<rparr>)], taskId := 2\<rparr>) = None \<and>
   mem_updateTask 2 (noTaskUpdate\<lparr>taskU_completed := Some True\<rparr>)
     (MemStorage_new\<lparr>tasksMap :=
       [(1, \<lparr>task_id = 1, task_text = ''Buy milk'', task_completed = False,
              task_dueDate = None, task_createdAt = 1000\<rparr>)], taskId := 2\<rparr>)
     = (None, MemStorage_new\<lparr>tasksMap :=
       [(1, \<lparr>task_id = 1, task_text = ''Buy milk'', task_completed = False,
              task_dueDate = None, task_createdAt = 1000\<rparr>)], taskId := 2\<rparr>) \<and>
   mem_getTask 1 (MemStorage_new\<lparr>tasksMap :=
       [(1, \<lparr>task_id = 1, task_text = ''Buy milk'', task_completed = False,
              task_dueDate = None, task_createdAt = 1000\<rparr>)], taskId := 2\<rparr>)
     = Some \<lparr>task_id = 1, task_text = ''Buy milk'', task_completed = False,
              task_dueDate = None, task_createdAt = 1000\<rparr> \<and>
   fst (mem_updateTask 1 (noTaskUpdate\<lparr>taskU_completed := Some True\<rparr>)
     (MemStorage_new\<lparr>tasksMap :=
       [(1, \<lparr>task_id = 1, task_text = ''Buy milk'', task_completed = False,
              task_dueDate = None, task_createdAt = 1000\<rparr>)], taskId := 2\<rparr>))
     = Some \<lparr>task_id = 1, task_text = ''Buy milk'', task_completed = True,
              task_dueDate = None, task_createdAt = 1000\<rparr>"
  using C7_updateTask [of 2
      "MemStorage_new\<lparr>tasksMap :=
       [(1, \<lparr>task_id = 1, task_text = ''Buy milk'', task_completed = False,
              task_dueDate = None, task_createdAt = 1000\<rparr>)], taskId := 2\<rparr>"
      "noTaskUpdate\<lparr>taskU_completed := Some True\<rparr>"]
  by (simp add: mem_getTask_def mem_updateTask_def mergeTask_def noTaskUpdate_def Let_def)

lemma sorted_newest_first:
  "sorted_wrt (\<lambda>x y. startTime y \<le> startTime x) (sort_key (\<lambda>x. - startTime x) xs)"
proof -
  have "sorted (map (\<lambda>x. - startTime x) (sort_key (\<lambda>x. - startTime x) xs))"
    by (rule sorted_sort_key)
  then show ?thesis by (simp add: sorted_map)
qed

text \<open>
  C8. \<open>getStudySessionsByDateRange\<close> returns the stored sessions whose \<open>startTime\<close>
  lies between the two dates, both included, each as often as it is stored, in
  order of descending \<open>startTime\<close>; when the end precedes the start the result
  is empty.
\<close>

theorem C8_date_range:
  "mset (mem_getStudySessionsByDateRange startDate endDate s) =
     filter_mset (\<lambda>x. startDate \<le> startTime x \<and> startTime x \<le> endDate)
       (mset (map snd (studySessionsMap s)))
   \<and> set (mem_getStudySessionsByDateRange startDate endDate s) =
       {x \<in> snd ` set (studySessionsMap s). startDate \<le> startTime x \<and> startTime x \<le> endDate}
   \<and> sorted_wrt (\<lambda>x y. startTime y \<le> startTime x)
        (mem_getStudySessionsByDateRange startDate endDate s)
   \<and> (endDate < startDate \<longrightarrow> mem_getStudySessionsByDateRange startDate endDate s = [])"
proof (intro conjI impI)
  show "mset (mem_getStudySessionsByDateRange startDate endDate s) =
     filter_mset (\<lambda>x. startDate \<le> startTime x \<and> startTime x \<le> endDate)
       (mset (map snd (studySessionsMap s)))"
    by (simp add: mem_getStudySessionsByDateRange_def Let_def)
  show "set (mem_getStudySessionsByDateRange startDate endDate s) =
       {x \<in> snd ` set (studySessionsMap s). startDate \<le> startTime x \<and> startTime x \<le> endDate}"
    by (auto simp add: mem_getStudySessionsByDateRange_def Let_def)
  show "sorted_wrt (\<lambda>x y. startTime y \<le> startTime x)
        (mem_getStudySessionsByDateRange startDate endDate s)"
    by (simp add: mem_getStudySessionsByDateRange_def Let_def sorted_newest_first)
next
  assume "endDate < startDate"
  then have "filter (\<lambda>session. startDate \<le> startTime session \<and> startTime session \<le> endDate)
               (map snd (studySessionsMap s)) = []"
    by (auto simp add: filter_empty_conv)
  then show "mem_getStudySessionsByDateRange startDate endDate s = []"
    by (simp add: mem_getStudySessionsByDateRange_def Let_def)
qed


theorem C8_date_range_witness:
  "(5::int) < 10 \<and>
   mem_getStudySessionsByDateRange 10 5
     (snd (mem_createStudySession 7 (noSessionUpdate\<lparr>sessU_timerType := Some ''pomodoro''\<rparr>)
             MemStorage_new)) = [] \<and>
   map sess_id
     (mem_getStudySessionsByDateRange 5 10
        (snd (mem_createStudySession 7 (noSessionUpdate\<lparr>sessU_timerType := Some ''pomodoro''\<rparr>)
                MemStorage_new))) = [1]"
  using C8_date_range [of 10 5
      "snd (mem_createStudySession 7 (noSessionUpdate\<lparr>sessU_timerType := Some ''pomodoro''\<rparr>)
              MemStorage_new)"]
  by (simp add: mem_getStudySessionsByDateRange_def mem_createStudySession_def
      noSessionUpdate_def MemStorage_new_def Let_def)

section \<open>The singletons\<close>

lemma mem_write_timerSettings:
  "timerSettingsInstance (mem_write tz w s) =
     (case w of
        UpdateTimerSettings settings \<Rightarrow>
          Some (mergeTimerSettings
                  (case timerSettingsInstance s of None \<Rightarrow> defaultTimerSettings | Some cur \<Rightarrow> cur)
                  settings)
      | _ \<Rightarrow> timerSettingsInstance s)"
  by (cases w)
     (simp_all add: mem_updateTimerSettings_def mem_updateStudyStats_def mem_increase_result
        Let_def split: option.splits)

lemma mem_write_studyStats: "studyStatsInstance s \<noteq> None \<Longrightarrow> studyStatsInstance (mem_write tz w s) \<noteq> None"
  by (cases w)
     (simp_all add: mem_updateTimerSettings_def mem_updateStudyStats_def mem_increase_result
        Let_def split: option.splits)

lemma mem_writes_present:
  "timerSettingsInstance s \<noteq> None \<Longrightarrow> studyStatsInstance s \<noteq> None \<Longrightarrow>
   timerSettingsInstance (mem_writes tz ws s) \<noteq> None \<and>
   studyStatsInstance (mem_writes tz ws s) \<noteq> None"
proof (induction ws arbitrary: s)
  case Nil
  then show ?case by simp
next
  case (Cons w ws)
  have "timerSettingsInstance (mem_write tz w s) \<noteq> None"
    using Cons.prems(1) by (simp add: mem_write_timerSettings split: singletonWrite.splits)
  moreover have "studyStatsInstance (mem_write tz w s) \<noteq> None"
    using Cons.prems(2) by (rule mem_write_studyStats)
  ultimately show ?case using Cons.IH by simp
qed

lemma mem_writes_background:
  "\<forall>w \<in> set ws. leavesBackground w \<Longrightarrow>
   timerSettingsInstance s = Some r \<Longrightarrow>
   backgroundImage r = Undefined \<Longrightarrow> useCustomBackground r = Undefined \<Longrightarrow>
   \<exists>r'. timerSettingsInstance (mem_writes tz ws s) = Some r' \<and>
        backgroundImage r' = Undefined \<and> useCustomBackground r' = Undefined"
proof (induction ws arbitrary: s r)
  case Nil
  then show ?case by simp
next
  case (Cons w ws)
  from Cons.prems have w: "leavesBackground w" by simp
  have "\<exists>r1. timerSettingsInstance (mem_write tz w s) = Some r1 \<and>
          backgroundImage r1 = Undefined \<and> useCustomBackground r1 = Undefined"
    using w Cons.prems(2,3,4)
    by (auto simp add: mem_write_timerSettings mergeTimerSettings_def
        split: singletonWrite.splits)
  then obtain r1 where "timerSettingsInstance (mem_write tz w s) = Some r1"
    "backgroundImage r1 = Undefined" "useCustomBackground r1 = Undefined"
    by blast
  with Cons.IH[of "mem_write tz w s" r1] Cons.prems(1) show ?case by simp
qed

text \<open>
  C10. The timer settings that the constructor creates, and those that
  \<open>updateTimerSettings\<close> creates when none are stored, have no \<open>backgroundImage\<close>
  and no \<open>useCustomBackground\<close> property unless the caller supplies it: both read
  \<open>undefined\<close>, not \<open>null\<close> and not \<open>false\<close>. They stay so through every run of
  writes that supplies neither, and a supplied value is stored.
\<close>

theorem C10_background_undefined:
  "(\<exists>r. mem_getTimerSettings MemStorage_new = Some r \<and>
      backgroundImage r = Undefined \<and> useCustomBackground r = Undefined \<and>
      backgroundImage r \<noteq> Defined None \<and> useCustomBackground r \<noteq> Defined False)
   \<and> (mem_getTimerSettings s = None \<and> tsU_backgroundImage settings = None \<and>
        tsU_useCustomBackground settings = None \<longrightarrow>
        backgroundImage (fst (mem_updateTimerSettings settings s)) = Undefined \<and>
        useCustomBackground (fst (mem_updateTimerSettings settings s)) = Undefined)
   \<and> ((\<forall>w \<in> set ws. leavesBackground w) \<longrightarrow>
        (\<exists>r. mem_getTimerSettings (mem_writes tz ws MemStorage_new) = Some r \<and>
           backgroundImage r = Undefined \<and> useCustomBackground r = Undefined))
   \<and> (tsU_backgroundImage settings = Some img \<longrightarrow>
        backgroundImage (fst (mem_updateTimerSettings settings s)) = Defined img)
   \<and> (tsU_useCustomBackground settings = Some flag \<longrightarrow>
        useCustomBackground (fst (mem_updateTimerSettings settings s)) = Defined flag)"
proof (intro conjI impI)
  show "\<exists>r. mem_getTimerSettings MemStorage_new = Some r \<and>
      backgroundImage r = Undefined \<and> useCustomBackground r = Undefined \<and>
      backgroundImage r \<noteq> Defined None \<and> useCustomBackground r \<noteq> Defined False"
    by (simp add: mem_getTimerSettings_def MemStorage_new_def defaultTimerSettings_def)
next
  assume a: "mem_getTimerSettings s = None \<and> tsU_backgroundImage settings = None \<and>
        tsU_useCustomBackground settings = None"
  then show "backgroundImage (fst (mem_updateTimerSettings settings s)) = Undefined"
    by (simp add: mem_getTimerSettings_def mem_updateTimerSettings_def Let_def
        mergeTimerSettings_def defaultTimerSettings_def)
  from a show "useCustomBackground (fst (mem_updateTimerSettings settings s)) = Undefined"
    by (simp add: mem_getTimerSettings_def mem_updateTimerSettings_def Let_def
        mergeTimerSettings_def defaultTimerSettings_def)
next
  assume "\<forall>w \<in> set ws. leavesBackground w"
  then show "\<exists>r. mem_getTimerSettings (mem_writes tz ws MemStorage_new) = Some r \<and>
           backgroundImage r = Undefined \<and> useCustomBackground r = Undefined"
    unfolding mem_getTimerSettings_def
    by (rule mem_writes_background[where r = defaultTimerSettings])
       (simp_all add: MemStorage_new_def defaultTimerSettings_def)
next
  assume "tsU_backgroundImage settings = Some img"
  then show "backgroundImage (fst (mem_updateTimerSettings settings s)) = Defined img"
    by (simp add: mem_updateTimerSettings_def Let_def mergeTimerSettings_def split: option.splits)
next
  assume "tsU_useCustomBackground settings = Some flag"
  then show "useCustomBackground (fst (mem_updateTimerSettings settings s)) = Defined flag"
    by (simp add: mem_updateTimerSettings_def Let_def mergeTimerSettings_def split: option.splits)
qed

theorem C10_background_undefined_witness:
  "leavesBackground (UpdateTimerSettings (noTimerSettingsUpdate\<lparr>tsU_volume := Some 50\<rparr>)) \<and>
   leavesBackground (IncreaseStudyTime 5 100 None) \<and>
   (\<exists>r. mem_getTimerSettings
          (mem_writes 0 [UpdateTimerSettings (noTimerSettingsUpdate\<lparr>tsU_volume := Some 50\<rparr>),
                         IncreaseStudyTime 5 100 None] MemStorage_new) = Some r \<and>
      backgroundImage r = Undefined \<and> useCustomBackground r = Undefined) \<and>
   tsU_useCustomBackground (noTimerSettingsUpdate\<lparr>tsU_useCustomBackground := Some True\<rparr>) = Some True \<and>
   useCustomBackground
     (fst (mem_updateTimerSettings (noTimerSettingsUpdate\<lparr>tsU_useCustomBackground := Some True\<rparr>)
             MemStorage_new)) = Defined True"
  using C10_background_undefined [of MemStorage_new
      "noTimerSettingsUpdate\<lparr>tsU_useCustomBackground := Some True\<rparr>"
      "[UpdateTimerSettings (noTimerSettingsUpdate\<lparr>tsU_volume := Some 50\<rparr>),
        IncreaseStudyTime 5 100 None]" 0 None True]
  by (simp add: noTimerSettingsUpdate_def)

text \<open>
  C6, as stated, on a new \<open>MemStorage\<close>: before any update \<open>getStudyStats\<close> and
  \<open>getTimerSettings\<close> already return the default records, not "absent".
\<close>

theorem C6_constructor_counterexample:
  "mem_getStudyStats MemStorage_new = Some defaultStats \<and>
   mem_getTimerSettings MemStorage_new = Some defaultTimerSettings"
  by (simp add: mem_getStudyStats_def mem_getTimerSettings_def MemStorage_new_def)

text \<open>
  C6, amended. The constructor creates both singletons with the defaults, so
  the two getters return a record on a new storage and after every run of
  writes. An update returns and stores one record: the defaults merged with the
  supplied properties when none was stored, the stored record merged with them
  otherwise; the rest of the storage is as before. Merging replaces each
  supplied property and keeps each other one.
\<close>

theorem C6_singletons:
  "mem_getStudyStats MemStorage_new = Some defaultStats
   \<and> mem_getTimerSettings MemStorage_new = Some defaultTimerSettings
   \<and> mem_getStudyStats (mem_writes tz ws MemStorage_new) \<noteq> None
   \<and> mem_getTimerSettings (mem_writes tz ws MemStorage_new) \<noteq> None
   \<and> mem_getStudyStats (snd (mem_updateStudyStats stats s))
       = Some (fst (mem_updateStudyStats stats s))
   \<and> mem_getTimerSettings (snd (mem_updateTimerSettings settings s))
       = Some (fst (mem_updateTimerSettings settings s))
   \<and> (mem_getStudyStats s = None \<longrightarrow>
        fst (mem_updateStudyStats stats s) = mergeStudyStats defaultStats stats)
   \<and> (\<forall>cur. mem_getStudyStats s = Some cur \<longrightarrow>
        fst (mem_updateStudyStats stats s) = mergeStudyStats cur stats)
   \<and> (mem_getTimerSettings s = None \<longrightarrow>
        fst (mem_updateTimerSettings settings s) = mergeTimerSettings defaultTimerSettings settings)
   \<and> (\<forall>cur. mem_getTimerSettings s = Some cur \<longrightarrow>
        fst (mem_updateTimerSettings settings s) = mergeTimerSettings cur settings)
   \<and> snd (mem_updateStudyStats stats s)
       = s\<lparr>studyStatsInstance := Some (fst (mem_updateStudyStats stats s))\<rparr>
   \<and> snd (mem_updateTimerSettings settings s)
       = s\<lparr>timerSettingsInstance := Some (fst (mem_updateTimerSettings settings s))\<rparr>
   \<and> stats_id (mergeStudyStats st stats) = stats_id st
   \<and> stats_userId (mergeStudyStats st stats) =
       (case statsU_userId stats of None \<Rightarrow> stats_userId st | Some v \<Rightarrow> v)
   \<and> totalStudyTime (mergeStudyStats st stats) =
       (case statsU_totalStudyTime stats of None \<Rightarrow> totalStudyTime st | Some v \<Rightarrow> v)
   \<and> dailyGoal (mergeStudyStats st stats) =
       (case statsU_dailyGoal stats of None \<Rightarrow> dailyGoal st | Some v \<Rightarrow> v)
   \<and> weeklyGoal (mergeStudyStats st stats) =
       (case statsU_weeklyGoal stats of None \<Rightarrow> weeklyGoal st | Some v \<Rightarrow> v)
   \<and> streakDays (mergeStudyStats st stats) =
       (case statsU_streakDays stats of None \<Rightarrow> streakDays st | Some v \<Rightarrow> v)
   \<and> lastStudyDate (mergeStudyStats st stats) =
       (case statsU_lastStudyDate stats of None \<Rightarrow> lastStudyDate st | Some v \<Rightarrow> v)
   \<and> timeByCategory (mergeStudyStats st stats) =
       (case statsU_timeByCategory stats of None \<Rightarrow> timeByCategory st | Some v \<Rightarrow> v)
   \<and> ts_id (mergeTimerSettings ts settings) = ts_id ts
   \<and> ts_userId (mergeTimerSettings ts settings) =
       (case tsU_userId settings of None \<Rightarrow> ts_userId ts | Some v \<Rightarrow> v)
   \<and> defaultMinutes (mergeTimerSettings ts settings) =
       (case tsU_defaultMinutes settings of None \<Rightarrow> defaultMinutes ts | Some v \<Rightarrow> v)
   \<and> defaultSeconds (mergeTimerSettings ts settings) =
       (case tsU_defaultSeconds settings of None \<Rightarrow> defaultSeconds ts | Some v \<Rightarrow> v)
   \<and> alarmSound (mergeTimerSettings ts settings) =
       (case tsU_alarmSound settings of None \<Rightarrow> alarmSound ts | Some v \<Rightarrow> v)
   \<and> volume (mergeTimerSettings ts settings) =
       (case tsU_volume settings of None \<Rightarrow> volume ts | Some v \<Rightarrow> v)
   \<and> autoStartBreak (mergeTimerSettings ts settings) =
       (case tsU_autoStartBreak settings of None \<Rightarrow> autoStartBreak ts | Some v \<Rightarrow> v)
   \<and> timerMode (mergeTimerSettings ts settings) =
       (case tsU_timerMode settings of None \<Rightarrow> timerMode ts | Some v \<Rightarrow> v)
   \<and> pomodoroMinutes (mergeTimerSettings ts settings) =
       (case tsU_pomodoroMinutes settings of None \<Rightarrow> pomodoroMinutes ts | Some v \<Rightarrow> v)
   \<and> shortBreakMinutes (mergeTimerSettings ts settings) =
       (case tsU_shortBreakMinutes settings of None \<Rightarrow> shortBreakMinutes ts | Some v \<Rightarrow> v)
   \<and> longBreakMinutes (mergeTimerSettings ts settings) =
       (case tsU_longBreakMinutes settings of None \<Rightarrow> longBreakMinutes ts | Some v \<Rightarrow> v)
   \<and> longBreakInterval (mergeTimerSettings ts settings) =
       (case tsU_longBreakInterval settings of None \<Rightarrow> longBreakInterval ts | Some v \<Rightarrow> v)
   \<and> autoStartPomodoro (mergeTimerSettings ts settings) =
       (case tsU_autoStartPomodoro settings of None \<Rightarrow> autoStartPomodoro ts | Some v \<Rightarrow> v)
   \<and> trackStopwatchTime (mergeTimerSettings ts settings) =
       (case tsU_trackStopwatchTime settings of None \<Rightarrow> trackStopwatchTime ts | Some v \<Rightarrow> v)
   \<and> stopwatchDefaultCategory (mergeTimerSettings ts settings) =
       (case tsU_stopwatchDefaultCategory settings of None \<Rightarrow> stopwatchDefaultCategory ts | Some v \<Rightarrow> v)
   \<and> stopwatchAutoSave (mergeTimerSettings ts settings) =
       (case tsU_stopwatchAutoSave settings of None \<Rightarrow> stopwatchAutoSave ts | Some v \<Rightarrow> v)
   \<and> backgroundImage (mergeTimerSettings ts settings) =
       (case tsU_backgroundImage settings of None \<Rightarrow> backgroundImage ts | Some v \<Rightarrow> Defined v)
   \<and> useCustomBackground (mergeTimerSettings ts settings) =
       (case tsU_useCustomBackground settings of None \<Rightarrow> useCustomBackground ts | Some v \<Rightarrow> Defined v)"
proof -
  have present: "mem_getStudyStats (mem_writes tz ws MemStorage_new) \<noteq> None"
    "mem_getTimerSettings (mem_writes tz ws MemStorage_new) \<noteq> None"
    using mem_writes_present[of MemStorage_new tz ws]
    by (simp_all add: mem_getStudyStats_def mem_getTimerSettings_def MemStorage_new_def)
  have new: "mem_getStudyStats MemStorage_new = Some defaultStats"
    "mem_getTimerSettings MemStorage_new = Some defaultTimerSettings"
    by (simp_all add: mem_getStudyStats_def mem_getTimerSettings_def MemStorage_new_def)
  have upd: "mem_getStudyStats (snd (mem_updateStudyStats stats s))
       = Some (fst (mem_updateStudyStats stats s))"
    "mem_getTimerSettings (snd (mem_updateTimerSettings settings s))
       = Some (fst (mem_updateTimerSettings settings s))"
    "snd (mem_updateStudyStats stats s)
       = s\<lparr>studyStatsInstance := Some (fst (mem_updateStudyStats stats s))\<rparr>"
    "snd (mem_updateTimerSettings settings s)
       = s\<lparr>timerSettingsInstance := Some (fst (mem_updateTimerSettings settings s))\<rparr>"
    by (simp_all add: mem_getStudyStats_def mem_getTimerSettings_def mem_updateStudyStats_def
        mem_updateTimerSettings_def Let_def)
  have lazy: "mem_getStudyStats s = None \<longrightarrow>
        fst (mem_updateStudyStats stats s) = mergeStudyStats defaultStats stats"
    "\<forall>cur. mem_getStudyStats s = Some cur \<longrightarrow>
        fst (mem_updateStudyStats stats s) = mergeStudyStats cur stats"
    "mem_getTimerSettings s = None \<longrightarrow>
        fst (mem_updateTimerSettings settings s) = mergeTimerSettings defaultTimerSettings settings"
    "\<forall>cur. mem_getTimerSettings s = Some cur \<longrightarrow>
        fst (mem_updateTimerSettings settings s) = mergeTimerSettings cur settings"
    by (simp_all add: mem_getStudyStats_def mem_getTimerSettings_def mem_updateStudyStats_def
        mem_updateTimerSettings_def Let_def)
  have merge:
    "stats_id (mergeStudyStats st stats) = stats_id st"
    "stats_userId (mergeStudyStats st stats) =
       (case statsU_userId stats of None \<Rightarrow> stats_userId st | Some v \<Rightarrow> v)"
    "totalStudyTime (mergeStudyStats st stats) =
       (case statsU_totalStudyTime stats of None \<Rightarrow> totalStudyTime st | Some v \<Rightarrow> v)"
    "dailyGoal (mergeStudyStats st stats) =
       (case statsU_dailyGoal stats of None \<Rightarrow> dailyGoal st | Some v \<Rightarrow> v)"
    "weeklyGoal (mergeStudyStats st stats) =
       (case statsU_weeklyGoal stats of None \<Rightarrow> weeklyGoal st | Some v \<Rightarrow> v)"
    "streakDays (mergeStudyStats st stats) =
       (case statsU_streakDays stats of None \<Rightarrow> streakDays st | Some v \<Rightarrow> v)"
    "lastStudyDate (mergeStudyStats st stats) =
       (case statsU_lastStudyDate stats of None \<Rightarrow> lastStudyDate st | Some v \<Rightarrow> v)"
    "timeByCategory (mergeStudyStats st stats) =
       (case statsU_timeByCategory stats of None \<Rightarrow> timeByCategory st | Some v \<Rightarrow> v)"
    "ts_id (mergeTimerSettings ts settings) = ts_id ts"
    "ts_userId (mergeTimerSettings ts settings) =
       (case tsU_userId settings of None \<Rightarrow> ts_userId ts | Some v \<Rightarrow> v)"
    "defaultMinutes (mergeTimerSettings ts settings) =
       (case tsU_defaultMinutes settings of None \<Rightarrow> defaultMinutes ts | Some v \<Rightarrow> v)"
    "defaultSeconds (mergeTimerSettings ts settings) =
       (case tsU_defaultSeconds settings of None \<Rightarrow> defaultSeconds ts | Some v \<Rightarrow> v)"
    "alarmSound (mergeTimerSettings ts settings) =
       (case tsU_alarmSound settings of None \<Rightarrow> alarmSound ts | Some v \<Rightarrow> v)"
    "volume (mergeTimerSettings ts settings) =
       (case tsU_volume settings of None \<Rightarrow> volume ts | Some v \<Rightarrow> v)"
    "autoStartBreak (mergeTimerSettings ts settings) =
       (case tsU_autoStartBreak settings of None \<Rightarrow> autoStartBreak ts | Some v \<Rightarrow> v)"
    "timerMode (mergeTimerSettings ts settings) =
       (case tsU_timerMode settings of None \<Rightarrow> timerMode ts | Some v \<Rightarrow> v)"
    "pomodoroMinutes (mergeTimerSettings ts settings) =
       (case tsU_pomodoroMinutes settings of None \<Rightarrow> pomodoroMinutes ts | Some v \<Rightarrow> v)"
    "shortBreakMinutes (mergeTimerSettings ts settings) =
       (case tsU_shortBreakMinutes settings of None \<Rightarrow> shortBreakMinutes ts | Some v \<Rightarrow> v)"
    "longBreakMinutes (mergeTimerSettings ts settings) =
       (case tsU_longBreakMinutes settings of None \<Rightarrow> longBreakMinutes ts | Some v \<Rightarrow> v)"
    "longBreakInterval (mergeTimerSettings ts settings) =
       (case tsU_longBreakInterval settings of None \<Rightarrow> longBreakInterval ts | Some v \<Rightarrow> v)"
    "autoStartPomodoro (mergeTimerSettings ts settings) =
       (case tsU_autoStartPomodoro settings of None \<Rightarrow> autoStartPomodoro ts | Some v \<Rightarrow> v)"
    "trackStopwatchTime (mergeTimerSettings ts settings) =
       (case tsU_trackStopwatchTime settings of None \<Rightarrow> trackStopwatchTime ts | Some v \<Rightarrow> v)"
    "stopwatchDefaultCategory (mergeTimerSettings ts settings) =
       (case tsU_stopwatchDefaultCategory settings of None \<Rightarrow> stopwatchDefaultCategory ts | Some v \<Rightarrow> v)"
    "stopwatchAutoSave (mergeTimerSettings ts settings) =
       (case tsU_stopwatchAutoSave settings of None \<Rightarrow> stopwatchAutoSave ts | Some v \<Rightarrow> v)"
    "backgroundImage (mergeTimerSettings ts settings) =
       (case tsU_backgroundImage settings of None \<Rightarrow> backgroundImage ts | Some v \<Rightarrow> Defined v)"
    "useCustomBackground (mergeTimerSettings ts settings) =
       (case tsU_useCustomBackground settings of None \<Rightarrow> useCustomBackground ts | Some v \<Rightarrow> Defined v)"
    by (simp_all add: mergeStudyStats_def mergeTimerSettings_def split: option.splits)
  show ?thesis
    using present new upd lazy merge by (intro conjI) assumption+
qed

theorem C6_singletons_witness:
  "mem_getStudyStats (MemStorage_new\<lparr>studyStatsInstance := None\<rparr>) = None \<and>
   fst (mem_updateStudyStats (noStatsUpdate\<lparr>statsU_dailyGoal := Some 3600\<rparr>)
          (MemStorage_new\<lparr>studyStatsInstance := None\<rparr>))
     = defaultStats\<lparr>dailyGoal := 3600\<rparr> \<and>
   mem_getStudyStats
     (snd (mem_updateStudyStats (noStatsUpdate\<lparr>statsU_dailyGoal := Some 3600\<rparr>)
             (MemStorage_new\<lparr>studyStatsInstance := None\<rparr>)))
     = Some (defaultStats\<lparr>dailyGoal := 3600\<rparr>) \<and>
   mem_getTimerSettings MemStorage_new = Some defaultTimerSettings \<and>
   fst (mem_updateTimerSettings (noTimerSettingsUpdate\<lparr>tsU_volume := Some 50\<rparr>) MemStorage_new)
     = defaultTimerSettings\<lparr>volume := 50\<rparr>"
  using C6_singletons [of 0 "[]" "noStatsUpdate\<lparr>statsU_dailyGoal := Some 3600\<rparr>"
      "MemStorage_new\<lparr>studyStatsInstance := None\<rparr>"
      "noTimerSettingsUpdate\<lparr>tsU_volume := Some 50\<rparr>" defaultStats defaultTimerSettings]
    C6_singletons [of 0 "[]" "noStatsUpdate\<lparr>statsU_dailyGoal := Some 3600\<rparr>"
      MemStorage_new
      "noTimerSettingsUpdate\<lparr>tsU_volume := Some 50\<rparr>" defaultStats defaultTimerSettings]
  by (simp add: mem_getStudyStats_def mem_getTimerSettings_def MemStorage_new_def
      mergeStudyStats_def mergeTimerSettings_def noStatsUpdate_def noTimerSettingsUpdate_def
      defaultStats_def defaultTimerSettings_def)


section \<open>The trigger in the request handler\<close>

lemma exampleStorage_eq:
  "exampleStorage =
     MemStorage_new\<lparr> studySessionsMap :=
        [(1, \<lparr> sess_id = 1, sess_userId = None, startTime = 0, endTime = None,
                duration = Some 1800, timerType = ''pomodoro'',
                tags = Some [''Math'', ''Review''], sess_notes = None,
                sess_completed = False \<rparr>)],
        sessionId := 2 \<rparr>"
  by (simp add: exampleStorage_def exampleSession_def mem_createStudySession_def
      noSessionUpdate_def MemStorage_new_def Let_def)

lemma put_example_first:
  "put_study_session 0 100 (Some 1) (Inr completeIt) exampleStorage =
     (Status200 \<lparr> sess_id = 1, sess_userId = None, startTime = 0, endTime = None,
                  duration = Some 1800, timerType = ''pomodoro'',
                  tags = Some [''Math'', ''Review''], sess_notes = None,
                  sess_completed = True \<rparr>,
      [(1800, Some ''Math'')],
      MemStorage_new\<lparr> studySessionsMap :=
        [(1, \<lparr> sess_id = 1, sess_userId = None, startTime = 0, endTime = None,
                duration = Some 1800, timerType = ''pomodoro'',
                tags = Some [''Math'', ''Review''], sess_notes = None,
                sess_completed = True \<rparr>)],
        sessionId := 2,
        studyStatsInstance :=
          Some (defaultStats\<lparr> totalStudyTime := 1800, lastStudyDate := Some 100,
                  streakDays := 1, timeByCategory := Some [''Math'' \<mapsto> Num 1800] \<rparr>) \<rparr>)"
  by (simp add: exampleStorage_eq put_study_session_def mem_updateStudySession_def
      mergeStudySession_def completeIt_def noSessionUpdate_def creditCall_def
      mem_increase_result MemStorage_new_def defaultStats_def addCategoryTime_def
      readProperty_def objectPrototypeNames_def Let_def)

text \<open>
  C4, as stated, on the scenario: the session is completed by a first PUT and
  credited; a second PUT writes a note to the session, which is completed
  already, and the handler calls \<open>increaseStudyTime(1800, "Math")\<close> once more, so
  that 3600 seconds are credited.
\<close>

theorem C4_repeat_counterexample:
  "map_option sess_completed
     (mem_getStudySession 1
        (snd (snd (put_study_session 0 100 (Some 1) (Inr completeIt) exampleStorage)))) = Some True \<and>
   fst (snd (put_study_session 0 200 (Some 1) (Inr annotateIt)
               (snd (snd (put_study_session 0 100 (Some 1) (Inr completeIt) exampleStorage)))))
     = [(1800, Some ''Math'')] \<and>
   map_option totalStudyTime
     (mem_getStudyStats
        (snd (snd (put_study_session 0 200 (Some 1) (Inr annotateIt)
                     (snd (snd (put_study_session 0 100 (Some 1) (Inr completeIt)
                                  exampleStorage)))))))
     = Some 3600"
  unfolding put_example_first
  by (simp add: mem_getStudySession_def mem_getStudyStats_def
      put_study_session_def mem_updateStudySession_def
      mergeStudySession_def annotateIt_def noSessionUpdate_def creditCall_def
      mem_increase_result MemStorage_new_def defaultStats_def addCategoryTime_def
      readProperty_def objectPrototypeNames_def Let_def)

lemma put_found:
  assumes "mem_getStudySession i s = Some old"
  shows "put_study_session tz now (Some i) (Inr validatedData) s =
     (let new = mergeStudySession old validatedData;
          s1 = s\<lparr>studySessionsMap := AList.update i new (studySessionsMap s)\<rparr>
      in case creditCall new of
           None \<Rightarrow> (Status200 new, [], s1)
         | Some (d, c) \<Rightarrow>
             (case mem_increaseStudyTime tz now d c s1 of
                Inl e \<Rightarrow> (Status500 ''Failed to update study session'', [(d, c)], s1)
              | Inr (r, s2) \<Rightarrow> (Status200 new, [(d, c)], s2)))"
  using assms
  by (simp add: put_study_session_def mem_updateStudySession_def mem_getStudySession_def Let_def
      split: option.splits)

lemma creditCall_iff:
  "creditCall u =
     (if sess_completed u \<and> (\<exists>d. duration u = Some d \<and> 0 < d)
      then Some (the (duration u), firstTag (tags u)) else None)"
  by (auto simp add: creditCall_def split: option.splits)

text \<open>
  C4, amended. A PUT on an id that is not stored answers 404 and makes no call.
  A PUT on a stored session answers with the session as updated, stores it, and
  calls \<open>increaseStudyTime\<close> exactly when the updated session is completed and
  has a duration above 0, whether or not it was completed before: once, with
  that duration and the first tag, or no category when the tags are empty or
  \<open>null\<close>. Without the call the stats are untouched. An invalid id or body
  makes no call. In the scenario the call is \<open>(1800, "Math")\<close> and Math alone is
  credited.
\<close>

theorem C4_trigger:
  "(mem_getStudySession i s = None \<longrightarrow>
      put_study_session tz now (Some i) (Inr validatedData) s =
        (Status404 ''Study session not found'', [], s))
   \<and> (\<forall>old. mem_getStudySession i s = Some old \<longrightarrow>
        (\<exists>calls s'.
           put_study_session tz now (Some i) (Inr validatedData) s =
             (Status200 (mergeStudySession old validatedData), calls, s') \<and>
           mem_getStudySession i s' = Some (mergeStudySession old validatedData) \<and>
           calls =
             (if sess_completed (mergeStudySession old validatedData) \<and>
                 (\<exists>d. duration (mergeStudySession old validatedData) = Some d \<and> 0 < d)
              then [(the (duration (mergeStudySession old validatedData)),
                     firstTag (tags (mergeStudySession old validatedData)))]
              else []) \<and>
           (calls = [] \<longrightarrow> mem_getStudyStats s' = mem_getStudyStats s) \<and>
           (\<forall>d c. calls = [(d, c)] \<longrightarrow>
              (\<exists>r. mem_increaseStudyTime tz now d c (snd (mem_updateStudySession i validatedData s))
                     = Inr (r, s')))))
   \<and> fst (snd (put_study_session tz now None body s)) = []
   \<and> fst (snd (put_study_session tz now idParam (Inl message) s)) = []
   \<and> firstTag (Some (t # ts)) = Some t
   \<and> firstTag (Some []) = None
   \<and> firstTag None = None
   \<and> fst (snd (put_study_session 0 100 (Some 1) (Inr completeIt) exampleStorage))
       = [(1800, Some ''Math'')]
   \<and> map_option timeByCategory
       (mem_getStudyStats
          (snd (snd (put_study_session 0 100 (Some 1) (Inr completeIt) exampleStorage))))
       = Some (Some [''Math'' \<mapsto> Num 1800])"
proof (intro conjI allI impI)
  assume "mem_getStudySession i s = None"
  then show "put_study_session tz now (Some i) (Inr validatedData) s =
        (Status404 ''Study session not found'', [], s)"
    by (simp add: put_study_session_def mem_updateStudySession_def mem_getStudySession_def)
next
  fix old
  assume old: "mem_getStudySession i s = Some old"
  let ?new = "mergeStudySession old validatedData"
  let ?s1 = "s\<lparr>studySessionsMap := AList.update i ?new (studySessionsMap s)\<rparr>"
  have s1: "snd (mem_updateStudySession i validatedData s) = ?s1"
    using old by (simp add: mem_updateStudySession_def mem_getStudySession_def Let_def)
  have get1: "mem_getStudySession i ?s1 = Some ?new"
    by (simp add: mem_getStudySession_def update_conv')
  show "\<exists>calls s'.
           put_study_session tz now (Some i) (Inr validatedData) s =
             (Status200 ?new, calls, s') \<and>
           mem_getStudySession i s' = Some ?new \<and>
           calls =
             (if sess_completed ?new \<and> (\<exists>d. duration ?new = Some d \<and> 0 < d)
              then [(the (duration ?new), firstTag (tags ?new))]
              else []) \<and>
           (calls = [] \<longrightarrow> mem_getStudyStats s' = mem_getStudyStats s) \<and>
           (\<forall>d c. calls = [(d, c)] \<longrightarrow>
              (\<exists>r. mem_increaseStudyTime tz now d c (snd (mem_updateStudySession i validatedData s))
                     = Inr (r, s')))"
  proof (cases "sess_completed ?new \<and> (\<exists>d. duration ?new = Some d \<and> 0 < d)")
    case False
    then have "creditCall ?new = None" by (simp add: creditCall_iff)
    then have "put_study_session tz now (Some i) (Inr validatedData) s = (Status200 ?new, [], ?s1)"
      using put_found[OF old, of tz now validatedData] by (simp add: Let_def)
    with False get1 show ?thesis
      by (simp add: mem_getStudyStats_def)
  next
    case True
    then have cc: "creditCall ?new = Some (the (duration ?new), firstTag (tags ?new))"
      by (simp add: creditCall_iff)
    obtain r s2 where inc:
      "mem_increaseStudyTime tz now (the (duration ?new)) (firstTag (tags ?new)) ?s1 = Inr (r, s2)"
      "s2 = ?s1\<lparr>studyStatsInstance := Some r\<rparr>"
      by (simp add: mem_increase_result Let_def)
    have "put_study_session tz now (Some i) (Inr validatedData) s =
            (Status200 ?new, [(the (duration ?new), firstTag (tags ?new))], s2)"
      using put_found[OF old, of tz now validatedData] cc inc(1) by (simp add: Let_def)
    moreover have "mem_getStudySession i s2 = Some ?new"
      using get1 inc(2) by (simp add: mem_getStudySession_def)
    ultimately show ?thesis
      using True inc(1) s1 by auto
  qed
next
  show "fst (snd (put_study_session tz now None body s)) = []"
    by (simp add: put_study_session_def)
  show "fst (snd (put_study_session tz now idParam (Inl message) s)) = []"
    by (simp add: put_study_session_def split: option.splits)
  show "fst (snd (put_study_session 0 100 (Some 1) (Inr completeIt) exampleStorage))
       = [(1800, Some ''Math'')]"
    by (simp add: put_example_first)
  show "map_option timeByCategory
       (mem_getStudyStats
          (snd (snd (put_study_session 0 100 (Some 1) (Inr completeIt) exampleStorage))))
       = Some (Some [''Math'' \<mapsto> Num 1800])"
    by (simp add: put_example_first mem_getStudyStats_def)
qed simp_all


theorem C4_trigger_witness:
  "mem_getStudySession 2 exampleStorage = None \<and>
   put_study_session 0 100 (Some 2) (Inr completeIt) exampleStorage =
     (Status404 ''Study session not found'', [], exampleStorage) \<and>
   map_option sess_completed (mem_getStudySession 1 exampleStorage) = Some False \<and>
   sess_completed (mergeStudySession (the (mem_getStudySession 1 exampleStorage)) completeIt) \<and>
   duration (mergeStudySession (the (mem_getStudySession 1 exampleStorage)) completeIt) = Some 1800 \<and>
   (\<exists>s'. put_study_session 0 100 (Some 1) (Inr completeIt) exampleStorage =
           (Status200 (mergeStudySession (the (mem_getStudySession 1 exampleStorage)) completeIt),
            [(1800, Some ''Math'')], s'))"
proof -
  let ?old = "\<lparr> sess_id = 1, sess_userId = None, startTime = 0, endTime = None,
                duration = Some 1800, timerType = ''pomodoro'',
                tags = Some [''Math'', ''Review''], sess_notes = None,
                sess_completed = False \<rparr>"
  have absent: "mem_getStudySession 2 exampleStorage = None"
    by (simp add: exampleStorage_eq mem_getStudySession_def)
  have stored: "mem_getStudySession 1 exampleStorage = Some ?old"
    by (simp add: exampleStorage_eq mem_getStudySession_def)
  have new: "sess_completed (mergeStudySession ?old completeIt)"
    "duration (mergeStudySession ?old completeIt) = Some 1800"
    "firstTag (tags (mergeStudySession ?old completeIt)) = Some ''Math''"
    by (simp_all add: mergeStudySession_def completeIt_def noSessionUpdate_def)
  have miss: "put_study_session 0 100 (Some 2) (Inr completeIt) exampleStorage =
     (Status404 ''Study session not found'', [], exampleStorage)"
    using absent C4_trigger [of 2 exampleStorage 0 100 completeIt "Inr completeIt" None "[]" "[]" "[]"]
    by blast
  have hit: "\<exists>s'. put_study_session 0 100 (Some 1) (Inr completeIt) exampleStorage =
           (Status200 (mergeStudySession ?old completeIt), [(1800, Some ''Math'')], s')"
    using stored new C4_trigger [of 1 exampleStorage 0 100 completeIt "Inr completeIt" None "[]" "[]" "[]"]
    by auto
  show ?thesis
    using absent stored new miss hit by simp
qed


end
